theory Spec2Isabelle
  imports Complex_Main "HOL-Library.AList" "HOL-Library.List_Lexorder"
begin

section \<open>Exceptions\<close>

text \<open>
  Every \<^verbatim>\<open>raise\<close> of the sources is a value \<open>Inl (Error c d)\<close>: \<open>c\<close> is the
  exception class that is raised and \<open>d\<close> is the data its message is formatted from.
  The message texts themselves are fixed by the class and that data, so they are not
  spelled out as strings.
\<close>

datatype exc =
    LookupError
  | KeyError
  | IndexError
  | AttributeError
  | ValueError
  | TypeError
  | RuntimeError
  | NotImplementedError
  | InvalidBoxError
  | UnsupportedCutoffMethodError
  | SMIRNOFFHandlersNotImplementedError
  | OpenMMException
  | ValidationError

text \<open>Keys a caller can pass to \<^verbatim>\<open>System.__getitem__\<close>: strings, and values of other types.\<close>

datatype item = PyStr string | PyInt int | PyNone

datatype detail =
    NoDetail
  | OnlyStr item                       \<comment> \<open>"Only str arguments can be currently be used for lookups ... Found item ..."\<close>
  | CouldNotFind string "string list"  \<comment> \<open>"Could not find component ... potential handlers registered: [...]"\<close>
  | Names "string list"                \<comment> \<open>the argument of \<^verbatim>\<open>SMIRNOFFHandlersNotImplementedError\<close>\<close>
  | MissingKey string                  \<comment> \<open>the key of a \<^verbatim>\<open>KeyError\<close>\<close>

datatype error = Error (exc_class: exc) (detail: detail)

section \<open>Supported SMIRNOFF handlers (\<^verbatim>\<open>system.py\<close>)\<close>

definition SUPPORTED_SMIRNOFF_HANDLERS :: "string list" where
  "SUPPORTED_SMIRNOFF_HANDLERS =
     [''Constraints'', ''Bonds'', ''Angles'', ''ProperTorsions'', ''ImproperTorsions'',
      ''vdW'', ''Electrostatics'', ''LibraryCharges'', ''ChargeIncrementModel'']"

text \<open>
  The loop of \<^verbatim>\<open>System._check_supported_handlers\<close> over
  \<^verbatim>\<open>force_field.registered_parameter_handlers\<close>, with the list \<open>unsupported\<close> as
  accumulator.
\<close>

fun collect_unsupported :: "string list \<Rightarrow> string list \<Rightarrow> string list" where
  "collect_unsupported [] unsupported = unsupported"
| "collect_unsupported (handler # rest) unsupported =
     (if handler \<in> set [''ToolkitAM1BCC''] then collect_unsupported rest unsupported
      else if handler \<notin> set SUPPORTED_SMIRNOFF_HANDLERS
        then collect_unsupported rest (unsupported @ [handler])
      else collect_unsupported rest unsupported)"

definition check_supported_handlers :: "string list \<Rightarrow> error + unit" where
  "check_supported_handlers registered_parameter_handlers =
     (let unsupported = collect_unsupported registered_parameter_handlers []
      in if unsupported \<noteq> []
         then Inl (Error SMIRNOFFHandlersNotImplementedError (Names unsupported))
         else Inr ())"

section \<open>Arrays\<close>

text \<open>
  A numpy array is its shape and its elements in row-major order. Coordinates are exact
  real numbers. An array that numpy builds from \<^verbatim>\<open>None\<close> has dtype object and holds
  \<^verbatim>\<open>None\<close> itself, so the elements of a positions array are of type \<open>elem\<close>.

  The entries of a box are doubles, since what is stored for a box is compared bit by
  bit: \<open>Finite neg m\<close> is the finite number of magnitude \<open>m\<close> (which is not negative) with
  the sign bit \<open>neg\<close>, so that \<open>Finite True 0\<close> is \<open>-0.0\<close>; \<open>Infinity neg\<close> is the
  infinity of that sign; \<open>NaN\<close> is not a number.
\<close>

record 'a ndarray =
  shape :: "nat list"
  data :: "'a list"

datatype elem = Num real | NoneObj

datatype double = Finite bool real | Infinity bool | NaN

definition asanyarray :: "elem ndarray option \<Rightarrow> elem ndarray" where
  "asanyarray v = (case v of None \<Rightarrow> \<lparr>shape = [], data = [NoneObj]\<rparr> | Some a \<Rightarrow> a)"

definition atleast_2d :: "elem ndarray option \<Rightarrow> elem ndarray" where
  "atleast_2d v =
     (let ary = asanyarray v
      in case shape ary of
           [] \<Rightarrow> ary\<lparr>shape := [1, 1]\<rparr>
         | [n] \<Rightarrow> ary\<lparr>shape := [1, n]\<rparr>
         | _ \<Rightarrow> ary)"

text \<open>
  \<^verbatim>\<open>numpy.vstack(tup)\<close>: every entry goes through \<^verbatim>\<open>atleast_2d\<close> and the results are
  concatenated along the first axis, which needs equal numbers of dimensions and equal
  trailing dimensions (\<^verbatim>\<open>ValueError\<close> otherwise, and for an empty sequence).
\<close>

definition vstack :: "elem ndarray option list \<Rightarrow> error + elem ndarray" where
  "vstack tup =
     (case map atleast_2d tup of
        [] \<Rightarrow> Inl (Error ValueError NoDetail)
      | a # rest \<Rightarrow>
          if list_all (\<lambda>b. length (shape b) = length (shape a) \<and> tl (shape b) = tl (shape a)) rest
          then Inr \<lparr>shape = sum_list (map (\<lambda>b. hd (shape b)) (a # rest)) # tl (shape a),
                    data = concat (map data (a # rest))\<rparr>
          else Inl (Error ValueError NoDetail))"

text \<open>
  \<^verbatim>\<open>np.eye(3)\<close> has the entries \<open>1.0\<close> and \<open>0.0\<close> only: \<open>True\<close> stands for \<open>1.0\<close>
  and \<open>False\<close> for \<open>0.0\<close>.
\<close>

definition eye3_rows :: "bool list list" where
  "eye3_rows = [[True, False, False], [False, True, False], [False, False, True]]"

text \<open>
  The product of a double and an entry of \<^verbatim>\<open>np.eye(3)\<close>: \<open>x * 1.0\<close> is \<open>x\<close>;
  \<open>x * 0.0\<close> is the zero with the sign of \<open>x\<close> for a finite \<open>x\<close>, and not a number for
  an infinite \<open>x\<close> and for \<open>NaN\<close>.
\<close>

fun times_entry :: "double \<Rightarrow> bool \<Rightarrow> double" where
  "times_entry x True = x"
| "times_entry (Finite neg m) False = Finite neg 0"
| "times_entry (Infinity neg) False = NaN"
| "times_entry NaN False = NaN"

text \<open>\<^verbatim>\<open>val * np.eye(3)\<close> for \<open>val\<close> of shape \<open>(3,)\<close>: \<open>val\<close> is broadcast along the rows.\<close>

definition times_eye3 :: "double ndarray \<Rightarrow> double ndarray" where
  "times_eye3 val =
     \<lparr>shape = [3, 3], data = concat (map (\<lambda>row. map2 times_entry (data val) row) eye3_rows)\<rparr>"

text \<open>\<^verbatim>\<open>InnerSystem.validate_box\<close>.\<close>

definition validate_box :: "double ndarray option \<Rightarrow> error + double ndarray option" where
  "validate_box v =
     (case v of
        None \<Rightarrow> Inr None
      | Some val \<Rightarrow>
          if shape val = [3, 3] then Inr (Some val)
          else if shape val = [3] then Inr (Some (times_eye3 val))
          else Inl (Error InvalidBoxError NoDetail))"

text \<open>
  \<^verbatim>\<open>x == y\<close> on doubles: \<open>NaN\<close> equals nothing, the two zeros are equal.
\<close>

fun double_eq :: "double \<Rightarrow> double \<Rightarrow> bool" where
  "double_eq (Finite neg m) (Finite neg' m') = (m = m' \<and> (neg = neg' \<or> m = 0))"
| "double_eq (Infinity neg) (Infinity neg') = (neg = neg')"
| "double_eq x y = False"

text \<open>
  \<^verbatim>\<open>np.all(a == b)\<close> on two stored boxes. \<^verbatim>\<open>None == None\<close> is true; an array
  compared with \<^verbatim>\<open>None\<close> is false at every element; two arrays of one shape are compared
  element by element. A stored box is \<^verbatim>\<open>None\<close> or of shape \<open>(3, 3)\<close>, so two stored
  arrays always have the same shape; for arrays of different shapes the model answers
  \<open>False\<close>.
\<close>

definition np_all_eq :: "double ndarray option \<Rightarrow> double ndarray option \<Rightarrow> bool" where
  "np_all_eq x y =
     (case (x, y) of
        (None, None) \<Rightarrow> True
      | (None, Some b) \<Rightarrow> data b = []
      | (Some a, None) \<Rightarrow> data a = []
      | (Some a, Some b) \<Rightarrow> shape a = shape b \<and> list_all2 double_eq (data a) (data b))"

text \<open>
  \<^verbatim>\<open>np.diag([a, b, c])\<close>: the three numbers on the diagonal and \<open>0.0\<close> elsewhere. A box
  length has its sign bit clear and is finite.
\<close>

definition diag3 :: "double \<Rightarrow> double \<Rightarrow> double \<Rightarrow> double ndarray" where
  "diag3 a b c =
     \<lparr>shape = [3, 3],
      data = [a, Finite False 0, Finite False 0,
              Finite False 0, b, Finite False 0,
              Finite False 0, Finite False 0, c]\<rparr>"

fun box_length :: "double \<Rightarrow> bool" where
  "box_length (Finite neg m) = (\<not> neg)"
| "box_length x = False"

section \<open>Keys, potentials and handlers\<close>

text \<open>
  \<^verbatim>\<open>TopologyKey\<close>: a tuple of atom indices and an optional multiplicity, compared by
  value. \<^verbatim>\<open>PotentialKey\<close> is the identity of a potential (a string); a potential is its
  parameters by name.
\<close>

record topology_key =
  atom_indices :: "nat list"
  mult :: "nat option"

type_synonym potential_key = string

type_synonym potential = "(string \<times> real) list"

text \<open>
  The fields of a potential handler that \<^verbatim>\<open>system.py\<close> and \<^verbatim>\<open>openmm.py\<close> read: the class
  itself (\<^verbatim>\<open>PotentialHandler\<close>) is not among the sources. A Python \<^verbatim>\<open>dict\<close> is an
  association list in insertion order (the attribute \<^verbatim>\<open>method\<close> is the field
  \<open>handler_method\<close>); \<^verbatim>\<open>d.update({k: v})\<close> is \<open>AList.update k v d\<close>, which
  overwrites in place or appends, and \<^verbatim>\<open>d[k]\<close> is \<open>map_of d k\<close>.
\<close>

record handler =
  slot_map :: "(topology_key \<times> potential_key) list"
  potentials :: "(potential_key \<times> potential) list"
  charges :: "(topology_key \<times> real) list"
  cutoff :: real
  handler_method :: string

section \<open>The container (\<^verbatim>\<open>system.py\<close>)\<close>

record molecule =
  name :: string
  n_atoms :: nat

text \<open>
  The topology: its molecules and the atom count of its \<^verbatim>\<open>mdtop\<close> (\<open>None\<close> when no
  \<^verbatim>\<open>mdtop\<close> is set).
\<close>

record topology_rec =
  topology_molecules :: "molecule list"
  mdtop :: "nat option"

record inner_system =
  handlers :: "(string \<times> handler) list"
  topology :: "topology_rec option"
  box :: "double ndarray option"
  positions :: "elem ndarray option"

text \<open>
  \<^verbatim>\<open>System\<close> objects hold a reference \<^verbatim>\<open>_inner_data\<close> to an \<^verbatim>\<open>InnerSystem\<close> object, and
  \<^verbatim>\<open>__add__\<close> copies that reference. The store therefore has the two kinds of objects:
  \<open>systems h ! s\<close> is the address of the inner data of the \<^verbatim>\<open>System\<close> object \<open>s\<close>, and
  \<open>inners h ! i\<close> is the \<^verbatim>\<open>InnerSystem\<close> at address \<open>i\<close>. An \<^verbatim>\<open>InnerSystem\<close> owns its
  handlers and its topology (no two of them share one). A new object gets the next free
  address.
\<close>

record heap =
  systems :: "nat list"
  inners :: "inner_system list"

definition valid :: "heap \<Rightarrow> nat \<Rightarrow> bool" where
  "valid h s = (s < length (systems h) \<and> systems h ! s < length (inners h))"

definition inner_data :: "heap \<Rightarrow> nat \<Rightarrow> inner_system" where
  "inner_data h s = inners h ! (systems h ! s)"

definition InnerSystem_init :: inner_system where
  "InnerSystem_init = \<lparr>handlers = [], topology = None, box = None, positions = None\<rparr>"

text \<open>\<^verbatim>\<open>System()\<close>: a new \<^verbatim>\<open>System\<close> object with a new, empty \<^verbatim>\<open>InnerSystem\<close>.\<close>

definition System_init :: "heap \<Rightarrow> heap \<times> nat" where
  "System_init h =
     (\<lparr>systems = systems h @ [length (inners h)], inners = inners h @ [InnerSystem_init]\<rparr>,
      length (systems h))"

text \<open>An assignment to a field of \<^verbatim>\<open>self._inner_data\<close>.\<close>

definition update_inner :: "heap \<Rightarrow> nat \<Rightarrow> (inner_system \<Rightarrow> inner_system) \<Rightarrow> heap" where
  "update_inner h s f = h\<lparr>inners := (inners h)[systems h ! s := f (inner_data h s)]\<rparr>"

text \<open>
  Modelled from the spec: the box setter. \<^verbatim>\<open>System.box = value\<close> assigns to the \<^verbatim>\<open>box\<close>
  field of the inner model, and the spec has the assignment validated (a 3-vector is
  expanded, any other shape than \<open>(3,)\<close> and \<open>(3, 3)\<close> fails); the base class
  \<^verbatim>\<open>DefaultModel\<close> that turns validation on assignment on is not among the sources.
  Nor is the way in which that class hands an error of a validator to the caller of the
  setter (as it is, or wrapped in its own validation error): it is the parameter
  \<open>report\<close>.
\<close>

definition set_box :: "(error \<Rightarrow> error) \<Rightarrow> heap \<Rightarrow> nat \<Rightarrow> double ndarray option \<Rightarrow> error + heap" where
  "set_box report h s v =
     (case validate_box v of
        Inl e \<Rightarrow> Inl (report e)
      | Inr val \<Rightarrow> Inr (update_inner h s (\<lambda>d. d\<lparr>box := val\<rparr>)))"

text \<open>The positions setter: a plain assignment to the field of the inner data.\<close>

definition set_positions :: "heap \<Rightarrow> nat \<Rightarrow> elem ndarray option \<Rightarrow> heap" where
  "set_positions h s v = update_inner h s (\<lambda>d. d\<lparr>positions := v\<rparr>)"

text \<open>\<^verbatim>\<open>System.add_handler\<close>.\<close>

definition add_handler :: "heap \<Rightarrow> nat \<Rightarrow> string \<Rightarrow> handler \<Rightarrow> heap" where
  "add_handler h s handler_name hdl =
     update_inner h s (\<lambda>d. d\<lparr>handlers := AList.update handler_name hdl (handlers d)\<rparr>)"

text \<open>\<^verbatim>\<open>System.__getitem__\<close>. It returns an array (or \<^verbatim>\<open>None\<close>) or a handler.\<close>

datatype component = ArrayElem "elem ndarray option" | ArrayReal "double ndarray option" | Handler handler

definition getitem_inner :: "inner_system \<Rightarrow> item \<Rightarrow> error + component" where
  "getitem_inner d it =
     (case it of
        PyStr item \<Rightarrow>
          if item = ''positions'' then Inr (ArrayElem (positions d))
          else if item \<in> set [''box'', ''box_vectors''] then Inr (ArrayReal (box d))
          else (case map_of (handlers d) item of
                  Some hdl \<Rightarrow> Inr (Handler hdl)
                | None \<Rightarrow> Inl (Error LookupError (CouldNotFind item (map fst (handlers d)))))
      | _ \<Rightarrow> Inl (Error LookupError (OnlyStr it)))"

definition getitem :: "heap \<Rightarrow> nat \<Rightarrow> item \<Rightarrow> error + component" where
  "getitem h s it = getitem_inner (inner_data h s) it"

section \<open>Combination (\<^verbatim>\<open>System.__add__\<close>)\<close>

definition shift_key :: "nat \<Rightarrow> topology_key \<Rightarrow> topology_key" where
  "shift_key atom_offset top_key =
     \<lparr>atom_indices = map (\<lambda>idx. idx + atom_offset) (atom_indices top_key), mult = mult top_key\<rparr>"

text \<open>
  The loop over \<^verbatim>\<open>handler.slot_map.items()\<close> for one handler of \<open>other\<close>, writing into
  the handler of the same name of \<open>self_copy\<close>. \<^verbatim>\<open>handler.potentials[pot_key]\<close> raises
  \<^verbatim>\<open>KeyError\<close> for a potential key that the store of \<open>other\<close> does not have.
\<close>

fun merge_slots ::
  "nat \<Rightarrow> handler \<Rightarrow> (topology_key \<times> potential_key) list \<Rightarrow> handler \<Rightarrow> error + handler" where
  "merge_slots atom_offset hdl [] self_handler = Inr self_handler"
| "merge_slots atom_offset hdl ((top_key, pot_key) # rest) self_handler =
     (case map_of (potentials hdl) pot_key of
        None \<Rightarrow> Inl (Error KeyError (MissingKey pot_key))
      | Some pot \<Rightarrow>
          merge_slots atom_offset hdl rest
            (self_handler
               \<lparr>slot_map := AList.update (shift_key atom_offset top_key) pot_key (slot_map self_handler),
                potentials := AList.update pot_key pot (potentials self_handler)\<rparr>))"

text \<open>
  The loop over \<^verbatim>\<open>other.handlers.items()\<close>. \<^verbatim>\<open>self_copy.handlers[handler_name]\<close> raises
  \<^verbatim>\<open>KeyError\<close> when the left operand has no handler of that name, also for
  \<^verbatim>\<open>"Electrostatics"\<close>, which is looked up before it is skipped.
\<close>

fun merge_handlers ::
  "nat \<Rightarrow> (string \<times> handler) list \<Rightarrow> (string \<times> handler) list \<Rightarrow> error + (string \<times> handler) list" where
  "merge_handlers atom_offset [] self_handlers = Inr self_handlers"
| "merge_handlers atom_offset ((handler_name, hdl) # rest) self_handlers =
     (case map_of self_handlers handler_name of
        None \<Rightarrow> Inl (Error KeyError (MissingKey handler_name))
      | Some self_handler \<Rightarrow>
          if handler_name = ''Electrostatics'' then merge_handlers atom_offset rest self_handlers
          else (case merge_slots atom_offset hdl (slot_map hdl) self_handler of
                  Inl e \<Rightarrow> Inl e
                | Inr self_handler' \<Rightarrow>
                    merge_handlers atom_offset rest
                      (AList.update handler_name self_handler' self_handlers)))"

text \<open>
  The loop over \<^verbatim>\<open>other["Electrostatics"].charges.items()\<close>. Each pass looks
  \<^verbatim>\<open>self_copy["Electrostatics"]\<close> up through \<^verbatim>\<open>__getitem__\<close>; \<^verbatim>\<open>atom_indices[0]\<close> raises
  \<^verbatim>\<open>IndexError\<close> on an empty tuple.
\<close>

fun merge_charges ::
  "nat \<Rightarrow> (topology_key \<times> real) list \<Rightarrow> (string \<times> handler) list \<Rightarrow> error + (string \<times> handler) list" where
  "merge_charges atom_offset [] self_handlers = Inr self_handlers"
| "merge_charges atom_offset ((atom_key, charge) # rest) self_handlers =
     (case atom_indices atom_key of
        [] \<Rightarrow> Inl (Error IndexError NoDetail)
      | idx # _ \<Rightarrow>
          (case map_of self_handlers ''Electrostatics'' of
             None \<Rightarrow> Inl (Error LookupError (CouldNotFind ''Electrostatics'' (map fst self_handlers)))
           | Some es \<Rightarrow>
               merge_charges atom_offset rest
                 (AList.update ''Electrostatics''
                    (es\<lparr>charges := AList.update \<lparr>atom_indices = [idx + atom_offset], mult = mult atom_key\<rparr>
                                    charge (charges es)\<rparr>)
                    self_handlers)))"

text \<open>
  \<^verbatim>\<open>self_copy.topology.add_molecule\<close> for every molecule of the copied topology of
  \<open>other\<close>, and the \<^verbatim>\<open>mdtop\<close> rebuilt from the result.
\<close>

definition add_molecules :: "topology_rec \<Rightarrow> molecule list \<Rightarrow> topology_rec" where
  "add_molecules tp mols =
     (let all_mols = topology_molecules tp @ mols
      in \<lparr>topology_molecules = all_mols, mdtop = Some (sum_list (map n_atoms all_mols))\<rparr>)"

text \<open>
  What \<^verbatim>\<open>__add__\<close> does to the inner data of \<open>self\<close> (which \<open>self_copy\<close> refers to) when
  \<open>other\<close> has inner data of its own, \<open>other_d\<close>, which is only read.
\<close>

definition add_inner :: "inner_system \<Rightarrow> inner_system \<Rightarrow> error + inner_system" where
  "add_inner self_d other_d =
     (case topology self_d of
        None \<Rightarrow> Inl (Error AttributeError NoDetail)
      | Some self_top \<Rightarrow>
     (case mdtop self_top of
        None \<Rightarrow> Inl (Error AttributeError NoDetail)
      | Some atom_offset \<Rightarrow>
     (case topology other_d of
        None \<Rightarrow> Inl (Error AttributeError NoDetail)
      | Some other_top \<Rightarrow>
     (case merge_handlers atom_offset (handlers other_d) (handlers self_d) of
        Inl e \<Rightarrow> Inl e
      | Inr hs \<Rightarrow>
     (case getitem_inner other_d (PyStr ''Electrostatics'') of
        Inl e \<Rightarrow> Inl e
      | Inr (ArrayElem _) \<Rightarrow> Inl (Error AttributeError NoDetail)
      | Inr (ArrayReal _) \<Rightarrow> Inl (Error AttributeError NoDetail)
      | Inr (Handler other_es) \<Rightarrow>
     (case merge_charges atom_offset (charges other_es) hs of
        Inl e \<Rightarrow> Inl e
      | Inr hs' \<Rightarrow>
     (case vstack [positions self_d, positions other_d] of
        Inl e \<Rightarrow> Inl e
      | Inr new_positions \<Rightarrow>
          if \<not> np_all_eq (box self_d) (box other_d)
          then Inl (Error NotImplementedError NoDetail)
          else Inr \<lparr>handlers = hs',
                    topology = Some (add_molecules self_top (topology_molecules other_top)),
                    box = box self_d,
                    positions = Some new_positions\<rparr>)))))))"

text \<open>
  When \<open>other\<close> refers to the same inner data as \<open>self\<close>, the two loops iterate over
  dictionaries while they update them. A Python dictionary iterator raises
  \<^verbatim>\<open>RuntimeError\<close> at its next step once the dictionary has grown; an update of a key
  that is already there leaves the size as it is and the iteration goes on. \<open>n\<close> is the
  number of entries that are left and \<open>i\<close> the position of the iterator.
\<close>

primrec live_slots :: "nat \<Rightarrow> nat \<Rightarrow> nat \<Rightarrow> handler \<Rightarrow> error + handler" where
  "live_slots atom_offset 0 i hdl = Inr hdl"
| "live_slots atom_offset (Suc n) i hdl =
     (let top_key = fst (slot_map hdl ! i);
          pot_key = snd (slot_map hdl ! i);
          new_top_key = shift_key atom_offset top_key
      in case map_of (potentials hdl) pot_key of
           None \<Rightarrow> Inl (Error KeyError (MissingKey pot_key))
         | Some pot \<Rightarrow>
             if new_top_key \<notin> set (map fst (slot_map hdl)) then Inl (Error RuntimeError NoDetail)
             else live_slots atom_offset n (Suc i)
                    (hdl\<lparr>slot_map := AList.update new_top_key pot_key (slot_map hdl),
                         potentials := AList.update pot_key pot (potentials hdl)\<rparr>))"

fun live_handlers :: "nat \<Rightarrow> (string \<times> handler) list \<Rightarrow> error + (string \<times> handler) list" where
  "live_handlers atom_offset [] = Inr []"
| "live_handlers atom_offset ((handler_name, hdl) # rest) =
     (if handler_name = ''Electrostatics''
      then (case live_handlers atom_offset rest of
              Inl e \<Rightarrow> Inl e
            | Inr rest' \<Rightarrow> Inr ((handler_name, hdl) # rest'))
      else (case live_slots atom_offset (length (slot_map hdl)) 0 hdl of
              Inl e \<Rightarrow> Inl e
            | Inr hdl' \<Rightarrow>
                (case live_handlers atom_offset rest of
                   Inl e \<Rightarrow> Inl e
                 | Inr rest' \<Rightarrow> Inr ((handler_name, hdl') # rest'))))"

primrec live_charges ::
  "nat \<Rightarrow> nat \<Rightarrow> nat \<Rightarrow> (topology_key \<times> real) list \<Rightarrow> error + (topology_key \<times> real) list" where
  "live_charges atom_offset 0 i chs = Inr chs"
| "live_charges atom_offset (Suc n) i chs =
     (let atom_key = fst (chs ! i);
          charge = snd (chs ! i)
      in case atom_indices atom_key of
           [] \<Rightarrow> Inl (Error IndexError NoDetail)
         | idx # _ \<Rightarrow>
             if \<lparr>atom_indices = [idx + atom_offset], mult = mult atom_key\<rparr> \<notin> set (map fst chs)
             then Inl (Error RuntimeError NoDetail)
             else live_charges atom_offset n (Suc i)
                    (AList.update \<lparr>atom_indices = [idx + atom_offset], mult = mult atom_key\<rparr> charge chs))"

definition add_inner_same :: "inner_system \<Rightarrow> error + inner_system" where
  "add_inner_same self_d =
     (case topology self_d of
        None \<Rightarrow> Inl (Error AttributeError NoDetail)
      | Some self_top \<Rightarrow>
     (case mdtop self_top of
        None \<Rightarrow> Inl (Error AttributeError NoDetail)
      | Some atom_offset \<Rightarrow>
     (case live_handlers atom_offset (handlers self_d) of
        Inl e \<Rightarrow> Inl e
      | Inr hs \<Rightarrow>
     (case getitem_inner (self_d\<lparr>handlers := hs\<rparr>) (PyStr ''Electrostatics'') of
        Inl e \<Rightarrow> Inl e
      | Inr (ArrayElem _) \<Rightarrow> Inl (Error AttributeError NoDetail)
      | Inr (ArrayReal _) \<Rightarrow> Inl (Error AttributeError NoDetail)
      | Inr (Handler es) \<Rightarrow>
     (case live_charges atom_offset (length (charges es)) 0 (charges es) of
        Inl e \<Rightarrow> Inl e
      | Inr chs \<Rightarrow>
     (case vstack [positions self_d, positions self_d] of
        Inl e \<Rightarrow> Inl e
      | Inr new_positions \<Rightarrow>
          if \<not> np_all_eq (box self_d) (box self_d)
          then Inl (Error NotImplementedError NoDetail)
          else Inr \<lparr>handlers = AList.update ''Electrostatics'' (es\<lparr>charges := chs\<rparr>) hs,
                    topology = Some (add_molecules self_top (topology_molecules self_top)),
                    box = box self_d,
                    positions = Some new_positions\<rparr>))))))"

text \<open>
  \<^verbatim>\<open>System.__add__\<close>. \<open>self_copy\<close> is a new \<^verbatim>\<open>System\<close> object whose \<^verbatim>\<open>_inner_data\<close> is
  set to the inner data object of \<open>self\<close> itself; every later write goes to that object.
  The result is the store after the call and the object returned. When the call raises,
  the model gives the exception only.
\<close>

definition add :: "heap \<Rightarrow> nat \<Rightarrow> nat \<Rightarrow> error + heap \<times> nat" where
  "add h self other =
     (let (h1, self_copy) = System_init h;
          h2 = h1\<lparr>systems := (systems h1)[self_copy := systems h1 ! self]\<rparr>
      in case (if systems h2 ! self = systems h2 ! other
               then add_inner_same (inner_data h2 self)
               else add_inner (inner_data h2 self) (inner_data h2 other)) of
           Inl e \<Rightarrow> Inl e
         | Inr d \<Rightarrow> Inr (h2\<lparr>inners := (inners h2)[systems h2 ! self_copy := d]\<rparr>, self_copy))"

section \<open>Per-particle parameter tables\<close>

text \<open>\<^verbatim>\<open>vdWCollection.potential_parameters\<close> (\<^verbatim>\<open>_nonbonded.py\<close>).\<close>

definition potential_parameters :: "string list" where
  "potential_parameters = [''sigma'', ''epsilon'']"

text \<open>
  Modelled from the spec: \<^verbatim>\<open>get_system_parameters\<close>, which is not among the sources. For
  a per-particle collection it gives one row of numeric parameters per slot-map entry, in
  atom index order; a slot whose potential key is not in the potential store is a failure
  at access time, and so is a potential without one of the parameters. A row holds the
  values of the parameters named by \<open>potential_parameters\<close>, in that order.
\<close>

fun parameter_row :: "potential \<Rightarrow> string list \<Rightarrow> error + real list" where
  "parameter_row pot [] = Inr []"
| "parameter_row pot (p # ps) =
     (case map_of pot p of
        None \<Rightarrow> Inl (Error KeyError (MissingKey p))
      | Some v \<Rightarrow>
          (case parameter_row pot ps of
             Inl e \<Rightarrow> Inl e
           | Inr vs \<Rightarrow> Inr (v # vs)))"

fun parameter_rows ::
  "(potential_key \<times> potential) list \<Rightarrow> (topology_key \<times> potential_key) list \<Rightarrow> error + real list list" where
  "parameter_rows pots [] = Inr []"
| "parameter_rows pots ((top_key, pot_key) # rest) =
     (case map_of pots pot_key of
        None \<Rightarrow> Inl (Error KeyError (MissingKey pot_key))
      | Some pot \<Rightarrow>
          (case parameter_row pot potential_parameters of
             Inl e \<Rightarrow> Inl e
           | Inr row \<Rightarrow>
               (case parameter_rows pots rest of
                  Inl e \<Rightarrow> Inl e
                | Inr rows \<Rightarrow> Inr (row # rows))))"

definition get_system_parameters :: "handler \<Rightarrow> error + real list list" where
  "get_system_parameters hdl =
     parameter_rows (potentials hdl) (sort_key (\<lambda>slot. atom_indices (fst slot)) (slot_map hdl))"

section \<open>OpenMM export of the nonbonded force (\<^verbatim>\<open>openmm.py\<close>)\<close>

datatype nonbonded_method = NoCutoff | CutoffNonPeriodic | CutoffPeriodic | Ewald | PME | LJPME

text \<open>
  The state of an \<^verbatim>\<open>openmm.NonbondedForce\<close> object: what each setter was last called
  with, \<open>None\<close> when it was never called and the engine's default is in place; and the
  particles.
\<close>

record nonbonded_force =
  nonbonded_method :: "nonbonded_method option"
  use_dispersion_correction :: "bool option"
  cutoff_distance :: "real option"
  particles :: "(real \<times> real \<times> real) list"

definition NonbondedForce_init :: nonbonded_force where
  "NonbondedForce_init =
     \<lparr>nonbonded_method = None, use_dispersion_correction = None, cutoff_distance = None,
      particles = []\<rparr>"

text \<open>\<^verbatim>\<open>setParticleParameters\<close> changes a particle that exists and raises otherwise.\<close>

definition setParticleParameters ::
  "nonbonded_force \<Rightarrow> nat \<Rightarrow> real \<Rightarrow> real \<Rightarrow> real \<Rightarrow> error + nonbonded_force" where
  "setParticleParameters f atom_idx charge sigma epsilon =
     (if atom_idx < length (particles f)
      then Inr (f\<lparr>particles := (particles f)[atom_idx := (charge, sigma, epsilon)]\<rparr>)
      else Inl (Error OpenMMException NoDetail))"

definition supported_cutoff_methods :: "string list list" where
  "supported_cutoff_methods = [[''Cutoff'', ''PME'']]"

text \<open>
  The loop over \<^verbatim>\<open>vdw_handler.slot_map.values()\<close>. What its body computes for one value
  (the atom index by \<^verbatim>\<open>eval\<close>, the charge from \<^verbatim>\<open>charge_map\<close>, sigma and epsilon by
  \<^verbatim>\<open>_lj_params_from_potential\<close>, which is not among the sources) is the parameter
  \<open>particle_parameters\<close>; it may raise.
\<close>

fun set_particles ::
  "(potential_key \<Rightarrow> error + nat \<times> real \<times> real \<times> real) \<Rightarrow> potential_key list \<Rightarrow>
   nonbonded_force \<Rightarrow> error + nonbonded_force" where
  "set_particles particle_parameters [] f = Inr f"
| "set_particles particle_parameters (v # vs) f =
     (case particle_parameters v of
        Inl e \<Rightarrow> Inl e
      | Inr (atom_idx, partial_charge, sigma, epsilon) \<Rightarrow>
          (case setParticleParameters f atom_idx partial_charge sigma epsilon of
             Inl e \<Rightarrow> Inl e
           | Inr f' \<Rightarrow> set_particles particle_parameters vs f'))"

text \<open>
  \<^verbatim>\<open>_process_nonbonded_forces\<close>. The result is the \<^verbatim>\<open>NonbondedForce\<close> that the function
  adds to the OpenMM system, as the function leaves it. The cutoff is kept in angstrom.
\<close>

definition process_nonbonded_forces ::
  "(potential_key \<Rightarrow> error + nat \<times> real \<times> real \<times> real) \<Rightarrow> inner_system \<Rightarrow> error + nonbonded_force" where
  "process_nonbonded_forces particle_parameters openff_sys =
     (case map_of (handlers openff_sys) ''vdW'' of
        None \<Rightarrow> Inl (Error KeyError (MissingKey ''vdW''))
      | Some vdw_handler \<Rightarrow>
          if handler_method vdw_handler \<notin> set (map (\<lambda>val. val ! 0) supported_cutoff_methods)
          then Inl (Error UnsupportedCutoffMethodError NoDetail)
          else
     (case map_of (handlers openff_sys) ''Electrostatics'' of
        None \<Rightarrow> Inl (Error KeyError (MissingKey ''Electrostatics''))
      | Some electrostatics_handler \<Rightarrow>
          if handler_method electrostatics_handler \<notin> set (map (\<lambda>v. v ! 1) supported_cutoff_methods)
          then Inl (Error UnsupportedCutoffMethodError NoDetail)
          else
            let non_bonded_force = NonbondedForce_init;
                non_bonded_force =
                  (if handler_method vdw_handler = ''cutoff''
                   then (if box openff_sys = None
                         then non_bonded_force\<lparr>nonbonded_method := Some NoCutoff\<rparr>
                         else non_bonded_force
                                \<lparr>nonbonded_method := Some PME,
                                 use_dispersion_correction := Some True,
                                 cutoff_distance := Some (cutoff vdw_handler)\<rparr>)
                   else non_bonded_force)
            in set_particles particle_parameters (map snd (slot_map vdw_handler)) non_bonded_force))"

section \<open>Electrostatics collection (\<^verbatim>\<open>_nonbonded.py\<close>)\<close>

text \<open>
  The keys of charges: \<^verbatim>\<open>TopologyKey\<close> for a charge on one atom or particle,
  \<^verbatim>\<open>LibraryChargeTopologyKey\<close> for a library charge.
\<close>

datatype charge_key = TopologyKey topology_key | LibraryChargeTopologyKey "nat list"

text \<open>
  \<^verbatim>\<open>ElectrostaticsCollection\<close>: the key map and the potentials of the base class
  \<^verbatim>\<open>Collection\<close>, where the charge contributions are registered, and the private
  attributes \<^verbatim>\<open>_charges\<close> and \<^verbatim>\<open>_charges_cached\<close>.
\<close>

record electrostatics_collection =
  key_map :: "(charge_key \<times> potential_key) list"
  collection_potentials :: "(potential_key \<times> potential) list"
  private_charges :: "(charge_key \<times> real) list"
  private_charges_cached :: bool

text \<open>The property \<^verbatim>\<open>ElectrostaticsCollection.charges\<close> and the method \<^verbatim>\<open>_get_charges\<close>.\<close>

definition ElectrostaticsCollection_charges ::
  "electrostatics_collection \<Rightarrow> error + (charge_key \<times> real) list" where
  "ElectrostaticsCollection_charges self = Inl (Error NotImplementedError NoDetail)"

definition ElectrostaticsCollection_get_charges ::
  "electrostatics_collection \<Rightarrow> error + (charge_key \<times> real) list" where
  "ElectrostaticsCollection_get_charges self = Inl (Error NotImplementedError NoDetail)"

section \<open>OpenMM virtual sites (\<^verbatim>\<open>_virtual_sites.py\<close>)\<close>

text \<open>
  A virtual site: its class, its orientation atoms, and the attributes that
  \<^verbatim>\<open>_create_openmm_virtual_site\<close> reads. Lengths are real numbers of nanometers, the
  angle is its magnitude.
\<close>

datatype site_class = BondChargeVirtualSite | DivalentLonePairVirtualSite | OtherVirtualSite

record virtual_site =
  site_class :: site_class
  orientations :: "nat list"
  distance :: real
  out_of_plane_angle :: real
  local_frame_weights :: "real list \<times> real list \<times> real list"
  local_frame_positions :: "real list"

datatype openmm_site =
    TwoParticleAverageSite nat nat real real
  | ThreeParticleAverageSite nat nat nat real real real
  | LocalCoordinatesSite "nat list" "real list" "real list" "real list" "real list"

text \<open>The list comprehension over \<^verbatim>\<open>virtual_site.orientations\<close>; a missing key raises.\<close>

fun openmm_indices_of :: "(nat \<times> nat) list \<Rightarrow> nat list \<Rightarrow> error + nat list" where
  "openmm_indices_of particle_map [] = Inr []"
| "openmm_indices_of particle_map (openff_index # rest) =
     (case map_of particle_map openff_index of
        None \<Rightarrow> Inl (Error KeyError NoDetail)
      | Some i \<Rightarrow>
          (case openmm_indices_of particle_map rest of
             Inl e \<Rightarrow> Inl e
           | Inr is \<Rightarrow> Inr (i # is)))"

text \<open>The weight \<open>w1\<close> of the symmetric three-particle site, as the source computes it.\<close>

definition divalent_w1 :: "real \<Rightarrow> real \<Rightarrow> real \<Rightarrow> real \<Rightarrow> real" where
  "divalent_w1 d r12 r13 r23 =
     (let theta = arccos ((r23\<^sup>2 - r12\<^sup>2 - r13\<^sup>2) / (- 2 * r12 * r13));
          r1mid = cos (theta / 2) * r12
      in 1 + d / r1mid)"

definition local_coordinates_site :: "virtual_site \<Rightarrow> nat list \<Rightarrow> openmm_site" where
  "local_coordinates_site virtual_site openmm_indices =
     (case local_frame_weights virtual_site of
        (originwt, xdir, ydir) \<Rightarrow>
          LocalCoordinatesSite openmm_indices originwt xdir ydir (local_frame_positions virtual_site))"

text \<open>
  \<^verbatim>\<open>_create_openmm_virtual_site\<close>. The helper \<^verbatim>\<open>_get_separation_by_atom_indices\<close> is not
  among the sources; it is the parameter \<open>get_separation\<close>, from a tuple of atom indices
  to a length, and it may raise. The two average sites take their particles as separate
  arguments, so a list of another length is a \<^verbatim>\<open>TypeError\<close>. Arithmetic is exact: where
  a divisor is zero the weights of the model mean nothing.
\<close>

definition create_openmm_virtual_site ::
  "(nat list \<Rightarrow> error + real) \<Rightarrow> virtual_site \<Rightarrow> (nat \<times> nat) list \<Rightarrow> error + openmm_site" where
  "create_openmm_virtual_site get_separation virtual_site openff_openmm_particle_map =
     (case openmm_indices_of openff_openmm_particle_map (orientations virtual_site) of
        Inl e \<Rightarrow> Inl e
      | Inr openmm_indices \<Rightarrow>
          if site_class virtual_site = BondChargeVirtualSite then
            (case get_separation (orientations virtual_site) of
               Inl e \<Rightarrow> Inl e
             | Inr separation \<Rightarrow>
                 let ratio = distance virtual_site / separation
                 in (case openmm_indices of
                       [p1, p2] \<Rightarrow> Inr (TwoParticleAverageSite p1 p2 (1 + ratio) (0 - ratio))
                     | _ \<Rightarrow> Inl (Error TypeError NoDetail)))
          else if site_class virtual_site = DivalentLonePairVirtualSite then
            (case get_separation (take 2 (orientations virtual_site)) of
               Inl e \<Rightarrow> Inl e
             | Inr r12 \<Rightarrow>
                 if length (orientations virtual_site) < 3 then Inl (Error IndexError NoDetail)
                 else
            (case get_separation [orientations virtual_site ! 0, orientations virtual_site ! 2] of
               Inl e \<Rightarrow> Inl e
             | Inr r13 \<Rightarrow>
                 if r12 = r13 \<and> out_of_plane_angle virtual_site = 0 then
                   (case get_separation (drop 1 (orientations virtual_site)) of
                      Inl e \<Rightarrow> Inl e
                    | Inr r23 \<Rightarrow>
                        let w1 = divalent_w1 (distance virtual_site) r12 r13 r23
                        in (case openmm_indices of
                              [p1, p2, p3] \<Rightarrow>
                                Inr (ThreeParticleAverageSite p1 p2 p3 w1 ((1 - w1) / 2) ((1 - w1) / 2))
                            | _ \<Rightarrow> Inl (Error TypeError NoDetail)))
                 else Inr (local_coordinates_site virtual_site openmm_indices)))
          else Inr (local_coordinates_site virtual_site openmm_indices))"

section \<open>Well-formed per-particle handlers\<close>

text \<open>
  Conditions under which containers are combined. In a per-particle handler of a
  container of \<open>n\<close> atoms every slot is keyed by one atom index below \<open>n\<close>. Two handlers
  agree on their potentials when every potential key that a slot of the second refers to
  and that the first has in its store names the same potential in both.
\<close>

definition per_particle :: "nat \<Rightarrow> handler \<Rightarrow> bool" where
  "per_particle n hdl =
     list_all (\<lambda>slot. case atom_indices (fst slot) of [i] \<Rightarrow> i < n | _ \<Rightarrow> False) (slot_map hdl)"

definition potentials_agree :: "handler \<Rightarrow> handler \<Rightarrow> bool" where
  "potentials_agree self_handler hdl =
     list_all
       (\<lambda>slot. case map_of (potentials self_handler) (snd slot) of
                 None \<Rightarrow> True
               | Some pot \<Rightarrow> map_of (potentials hdl) (snd slot) = Some pot)
       (slot_map hdl)"

section \<open>Concrete containers\<close>

text \<open>A collection in which a partial charge on atom 0 is registered.\<close>

definition charged_collection :: electrostatics_collection where
  "charged_collection =
     \<lparr>key_map = [(TopologyKey \<lparr>atom_indices = [0], mult = None\<rparr>, ''charge_0'')],
      collection_potentials = [(''charge_0'', [(''charge'', 1 / 2)])],
      private_charges = [],
      private_charges_cached = False\<rparr>"

text \<open>
  A handler without entries, and a store with one container that has this handler
  registered as \<^verbatim>\<open>"Bonds"\<close> and, through \<^verbatim>\<open>add_handler\<close>, as \<^verbatim>\<open>"box"\<close>.
\<close>

definition empty_handler :: handler where
  "empty_handler = \<lparr>slot_map = [], potentials = [], charges = [], cutoff = 9, handler_method = ''cutoff''\<rparr>"

definition lookup_heap :: heap where
  "lookup_heap =
     add_handler
       \<lparr>systems = [0], inners = [InnerSystem_init\<lparr>handlers := [(''Bonds'', empty_handler)]\<rparr>]\<rparr>
       0 ''box'' empty_handler"

text \<open>
  A periodic container (a cubic box of 4 nm) whose vdW method is \<^verbatim>\<open>"Cutoff"\<close> and whose
  electrostatics method is \<^verbatim>\<open>"PME"\<close>, with no particles.
\<close>

definition periodic_system :: inner_system where
  "periodic_system =
     \<lparr>handlers = [(''vdW'', empty_handler\<lparr>handler_method := ''Cutoff''\<rparr>),
                  (''Electrostatics'', empty_handler\<lparr>handler_method := ''PME''\<rparr>)],
      topology = None,
      box = Some (diag3 (Finite False 4) (Finite False 4) (Finite False 4)),
      positions = None\<rparr>"

text \<open>
  Virtual sites on the atoms 0, 1 and 2, which are the particles 0, 1 and 2: a bond-charge
  site, and a divalent lone-pair site in the plane and one out of it.
\<close>

definition bond_charge_site :: virtual_site where
  "bond_charge_site =
     \<lparr>site_class = BondChargeVirtualSite, orientations = [0, 1], distance = 1 / 10,
      out_of_plane_angle = 0,
      local_frame_weights = ([1, 0], [- 1, 1], [- 1, 1]), local_frame_positions = [- 1 / 10, 0, 0]\<rparr>"

definition planar_lone_pair :: virtual_site where
  "planar_lone_pair =
     \<lparr>site_class = DivalentLonePairVirtualSite, orientations = [0, 1, 2], distance = 1 / 10,
      out_of_plane_angle = 0,
      local_frame_weights = ([1, 0, 0], [- 1, 1 / 2, 1 / 2], [- 1, 1, 0]),
      local_frame_positions = [- 1 / 10, 0, 0]\<rparr>"

definition tilted_lone_pair :: virtual_site where
  "tilted_lone_pair = planar_lone_pair\<lparr>out_of_plane_angle := 54\<rparr>"

definition three_particles :: "(nat \<times> nat) list" where
  "three_particles = [(0, 0), (1, 1), (2, 2)]"

text \<open>
  Two containers without box and without positions, of two atoms and of one atom, each
  with a vdW and an electrostatics handler, in a store of their own; and the same two
  with coordinates.
\<close>

definition atom_key :: "nat \<Rightarrow> topology_key" where
  "atom_key i = \<lparr>atom_indices = [i], mult = None\<rparr>"

definition carbon :: potential where
  "carbon = [(''sigma'', 17 / 50), (''epsilon'', 1 / 10)]"

definition oxygen :: potential where
  "oxygen = [(''sigma'', 3 / 10), (''epsilon'', 1 / 5)]"

definition left_system :: inner_system where
  "left_system =
     \<lparr>handlers =
        [(''vdW'', \<lparr>slot_map = [(atom_key 0, ''C''), (atom_key 1, ''O'')],
                    potentials = [(''C'', carbon), (''O'', oxygen)],
                    charges = [], cutoff = 9, handler_method = ''cutoff''\<rparr>),
         (''Electrostatics'', \<lparr>slot_map = [], potentials = [],
                    charges = [(atom_key 0, 1 / 2), (atom_key 1, - 1 / 2)],
                    cutoff = 9, handler_method = ''pme''\<rparr>)],
      topology = Some \<lparr>topology_molecules = [\<lparr>name = ''CO'', n_atoms = 2\<rparr>], mdtop = Some 2\<rparr>,
      box = None,
      positions = None\<rparr>"

definition right_system :: inner_system where
  "right_system =
     \<lparr>handlers =
        [(''vdW'', \<lparr>slot_map = [(atom_key 0, ''C'')],
                    potentials = [(''C'', carbon)],
                    charges = [], cutoff = 9, handler_method = ''cutoff''\<rparr>),
         (''Electrostatics'', \<lparr>slot_map = [], potentials = [],
                    charges = [(atom_key 0, 0)],
                    cutoff = 9, handler_method = ''pme''\<rparr>)],
      topology = Some \<lparr>topology_molecules = [\<lparr>name = ''C'', n_atoms = 1\<rparr>], mdtop = Some 1\<rparr>,
      box = None,
      positions = None\<rparr>"

definition two_systems :: heap where
  "two_systems = \<lparr>systems = [0, 1], inners = [left_system, right_system]\<rparr>"

definition left_positions :: "elem ndarray" where
  "left_positions = \<lparr>shape = [2, 3], data = [Num 0, Num 0, Num 0, Num 1, Num 0, Num 0]\<rparr>"

definition right_positions :: "elem ndarray" where
  "right_positions = \<lparr>shape = [1, 3], data = [Num 5, Num 5, Num 5]\<rparr>"

definition two_positioned_systems :: heap where
  "two_positioned_systems =
     set_positions (set_positions two_systems 0 (Some left_positions)) 1 (Some right_positions)"

text \<open>
  A container like \<open>right_system\<close> in which the potential key \<^verbatim>\<open>"C"\<close> names other
  parameters than it does in \<open>left_system\<close>.
\<close>

definition clashing_system :: inner_system where
  "clashing_system =
     right_system
       \<lparr>handlers :=
          [(''vdW'', \<lparr>slot_map = [(atom_key 0, ''C'')],
                      potentials = [(''C'', oxygen)],
                      charges = [], cutoff = 9, handler_method = ''cutoff''\<rparr>),
           (''Electrostatics'', \<lparr>slot_map = [], potentials = [],
                      charges = [(atom_key 0, 0)],
                      cutoff = 9, handler_method = ''pme''\<rparr>)]\<rparr>"

definition clashing_systems :: heap where
  "clashing_systems = \<lparr>systems = [0, 1], inners = [left_system, clashing_system]\<rparr>"

text \<open>A store with one new container, and an array of six numbers.\<close>

definition one_system :: heap where
  "one_system = fst (System_init \<lparr>systems = [], inners = []\<rparr>)"

definition six_numbers :: "double ndarray" where
  "six_numbers =
     \<lparr>shape = [6],
      data = [Finite False 2, Finite False 2, Finite False 3,
              Finite False 90, Finite False 90, Finite False 90]\<rparr>"

section \<open>The supported-handler check\<close>

lemma collect_unsupported_filter:
  "collect_unsupported hs acc =
     acc @ filter (\<lambda>h. h \<noteq> ''ToolkitAM1BCC'' \<and> h \<notin> set SUPPORTED_SMIRNOFF_HANDLERS) hs"
  by (induction hs arbitrary: acc) simp_all

text \<open>
  C10. \<^verbatim>\<open>"ToolkitAM1BCC"\<close> is not in the supported set, and the check never reports it:
  the names reported are exactly the registered names, in order, that are neither
  \<^verbatim>\<open>"ToolkitAM1BCC"\<close> nor in the supported set, and the error is raised if and only if
  there is such a name.
\<close>

theorem toolkit_am1bcc_exempt:
  "''ToolkitAM1BCC'' \<notin> set SUPPORTED_SMIRNOFF_HANDLERS \<and>
   check_supported_handlers hs =
     (let unsupported =
            filter (\<lambda>h. h \<noteq> ''ToolkitAM1BCC'' \<and> h \<notin> set SUPPORTED_SMIRNOFF_HANDLERS) hs
      in if unsupported = [] then Inr ()
         else Inl (Error SMIRNOFFHandlersNotImplementedError (Names unsupported)))"
proof
  show "''ToolkitAM1BCC'' \<notin> set SUPPORTED_SMIRNOFF_HANDLERS"
    by (simp add: SUPPORTED_SMIRNOFF_HANDLERS_def)
next
  show "check_supported_handlers hs =
     (let unsupported =
            filter (\<lambda>h. h \<noteq> ''ToolkitAM1BCC'' \<and> h \<notin> set SUPPORTED_SMIRNOFF_HANDLERS) hs
      in if unsupported = [] then Inr ()
         else Inl (Error SMIRNOFFHandlersNotImplementedError (Names unsupported)))"
    by (simp add: check_supported_handlers_def collect_unsupported_filter Let_def)
qed

section \<open>The box\<close>

lemma box_after_update:
  "valid h s \<Longrightarrow> box (inner_data (update_inner h s (\<lambda>d. d\<lparr>box := val\<rparr>)) s) = val"
  by (simp add: valid_def inner_data_def update_inner_def)

lemma times_zero_box_length: "box_length x \<Longrightarrow> times_entry x False = Finite False 0"
  by (cases x) simp_all

lemma times_eye3_vector:
  "times_eye3 \<lparr>shape = [3], data = [a, b, c]\<rparr> =
     \<lparr>shape = [3, 3],
      data = [a, times_entry b False, times_entry c False,
              times_entry a False, b, times_entry c False,
              times_entry a False, times_entry b False, c]\<rparr>"
  by (simp add: times_eye3_def eye3_rows_def)

text \<open>Setting the box leaves the rest of the container as it is.\<close>

lemma set_box_frame:
  "valid h s \<Longrightarrow> set_box report h s v = Inr h' \<Longrightarrow>
   handlers (inner_data h' s) = handlers (inner_data h s) \<and>
   topology (inner_data h' s) = topology (inner_data h s) \<and>
   positions (inner_data h' s) = positions (inner_data h s) \<and>
   systems h' = systems h"
  by (auto simp: set_box_def valid_def inner_data_def update_inner_def split: sum.splits)

text \<open>
  C7, as the code has it. In a container of the store, setting the box to the 3-vector
  \<open>[a, b, c]\<close> stores the matrix whose diagonal is \<open>a\<close>, \<open>b\<close>, \<open>c\<close> and whose other
  entries are the products of \<open>a\<close>, \<open>b\<close>, \<open>c\<close> (by column) with \<open>0.0\<close>. For box lengths,
  which are finite with a clear sign bit, this is \<open>diag(a, b, c)\<close> bit by bit, the two
  inputs validate to the same value and leave the same store behind. A 3 by 3 matrix is
  stored as it is, \<^verbatim>\<open>None\<close> is stored as \<^verbatim>\<open>None\<close>, and an array of any other shape than
  \<open>(3,)\<close> and \<open>(3, 3)\<close> makes the validator raise \<^verbatim>\<open>InvalidBoxError\<close>, which the setter
  reports.
\<close>

theorem box_setter:
  assumes "valid h s"
  shows
    "map_sum id (\<lambda>h'. box (inner_data h' s)) (set_box report h s (Some \<lparr>shape = [3], data = [a, b, c]\<rparr>))
       = Inr (Some \<lparr>shape = [3, 3],
                    data = [a, times_entry b False, times_entry c False,
                            times_entry a False, b, times_entry c False,
                            times_entry a False, times_entry b False, c]\<rparr>) \<and>
     (box_length a \<and> box_length b \<and> box_length c \<longrightarrow>
        validate_box (Some \<lparr>shape = [3], data = [a, b, c]\<rparr>) = validate_box (Some (diag3 a b c)) \<and>
        set_box report h s (Some \<lparr>shape = [3], data = [a, b, c]\<rparr>)
          = set_box report h s (Some (diag3 a b c)) \<and>
        map_sum id (\<lambda>h'. box (inner_data h' s)) (set_box report h s (Some \<lparr>shape = [3], data = [a, b, c]\<rparr>))
          = Inr (Some (diag3 a b c)) \<and>
        map_sum id (\<lambda>h'. box (inner_data h' s)) (set_box report h s (Some (diag3 a b c)))
          = Inr (Some (diag3 a b c))) \<and>
     (shape m = [3, 3] \<longrightarrow>
        map_sum id (\<lambda>h'. box (inner_data h' s)) (set_box report h s (Some m)) = Inr (Some m)) \<and>
     map_sum id (\<lambda>h'. box (inner_data h' s)) (set_box report h s None) = Inr None \<and>
     (shape v \<noteq> [3] \<and> shape v \<noteq> [3, 3] \<longrightarrow>
        validate_box (Some v) = Inl (Error InvalidBoxError NoDetail) \<and>
        set_box report h s (Some v) = Inl (report (Error InvalidBoxError NoDetail)))"
proof (intro conjI impI)
  show "map_sum id (\<lambda>h'. box (inner_data h' s)) (set_box report h s (Some \<lparr>shape = [3], data = [a, b, c]\<rparr>))
       = Inr (Some \<lparr>shape = [3, 3],
                    data = [a, times_entry b False, times_entry c False,
                            times_entry a False, b, times_entry c False,
                            times_entry a False, times_entry b False, c]\<rparr>)"
    by (simp add: set_box_def validate_box_def times_eye3_vector box_after_update [OF assms])
next
  assume len: "box_length a \<and> box_length b \<and> box_length c"
  then have v: "validate_box (Some \<lparr>shape = [3], data = [a, b, c]\<rparr>) = Inr (Some (diag3 a b c))"
    by (simp add: validate_box_def times_eye3_vector times_zero_box_length diag3_def)
  have d: "validate_box (Some (diag3 a b c)) = Inr (Some (diag3 a b c))"
    by (simp add: validate_box_def diag3_def)
  show "validate_box (Some \<lparr>shape = [3], data = [a, b, c]\<rparr>) = validate_box (Some (diag3 a b c))"
    by (simp only: v d)
  show "set_box report h s (Some \<lparr>shape = [3], data = [a, b, c]\<rparr>)
      = set_box report h s (Some (diag3 a b c))"
    by (simp only: set_box_def v d)
  show "map_sum id (\<lambda>h'. box (inner_data h' s)) (set_box report h s (Some \<lparr>shape = [3], data = [a, b, c]\<rparr>))
      = Inr (Some (diag3 a b c))"
    by (simp add: set_box_def v box_after_update [OF assms])
  show "map_sum id (\<lambda>h'. box (inner_data h' s)) (set_box report h s (Some (diag3 a b c)))
      = Inr (Some (diag3 a b c))"
    by (simp add: set_box_def d box_after_update [OF assms])
next
  assume "shape m = [3, 3]"
  then show "map_sum id (\<lambda>h'. box (inner_data h' s)) (set_box report h s (Some m)) = Inr (Some m)"
    by (simp add: set_box_def validate_box_def box_after_update [OF assms])
next
  show "map_sum id (\<lambda>h'. box (inner_data h' s)) (set_box report h s None) = Inr None"
    by (simp add: set_box_def validate_box_def box_after_update [OF assms])
next
  assume "shape v \<noteq> [3] \<and> shape v \<noteq> [3, 3]"
  then show "validate_box (Some v) = Inl (Error InvalidBoxError NoDetail)"
    by (simp add: validate_box_def)
next
  assume "shape v \<noteq> [3] \<and> shape v \<noteq> [3, 3]"
  then show "set_box report h s (Some v) = Inl (report (Error InvalidBoxError NoDetail))"
    by (simp add: set_box_def validate_box_def)
qed

theorem box_setter_witness:
  "valid one_system 0 \<and>
   box_length (Finite False 4) \<and>
   shape six_numbers \<noteq> [3] \<and> shape six_numbers \<noteq> [3, 3] \<and>
   box (inner_data one_system 0) = None \<and>
   map_sum id (\<lambda>h'. box (inner_data h' 0))
       (set_box (\<lambda>e. Error ValidationError (detail e)) one_system 0
          (Some \<lparr>shape = [3], data = [Finite False 4, Finite False 4, Finite False 4]\<rparr>))
     = Inr (Some (diag3 (Finite False 4) (Finite False 4) (Finite False 4))) \<and>
   map_sum id (\<lambda>h'. box (inner_data h' 0))
       (set_box (\<lambda>e. Error ValidationError (detail e)) one_system 0
          (Some (diag3 (Finite False 4) (Finite False 4) (Finite False 4))))
     = Inr (Some (diag3 (Finite False 4) (Finite False 4) (Finite False 4))) \<and>
   set_box (\<lambda>e. Error ValidationError (detail e)) one_system 0 (Some six_numbers)
     = Inl (Error ValidationError NoDetail) \<and>
   shape (diag3 (Finite True 1) (Finite False 2) (Finite False 3)) = [3, 3] \<and>
   map_sum id (\<lambda>h'. box (inner_data h' 0))
       (set_box (\<lambda>e. Error ValidationError (detail e)) one_system 0
          (Some (diag3 (Finite True 1) (Finite False 2) (Finite False 3))))
     = Inr (Some (diag3 (Finite True 1) (Finite False 2) (Finite False 3)))"
proof -
  let ?r = "\<lambda>e. Error ValidationError (detail e)"
  let ?x = "Finite False 4"
  have val: "valid one_system 0"
    by (simp add: valid_def one_system_def System_init_def)
  have len: "box_length ?x \<and> box_length ?x \<and> box_length ?x"
    by simp
  have ne: "shape six_numbers \<noteq> [3] \<and> shape six_numbers \<noteq> [3, 3]"
    by (simp add: six_numbers_def)
  have before: "box (inner_data one_system 0) = None"
    by (simp add: inner_data_def one_system_def System_init_def InnerSystem_init_def)
  let ?m = "diag3 (Finite True 1) (Finite False 2) (Finite False 3)"
  have sh: "shape ?m = [3, 3]"
    by (simp add: diag3_def)
  note t = box_setter [OF val, of ?r ?x ?x ?x ?m six_numbers]
  have asis: "map_sum id (\<lambda>h'. box (inner_data h' 0)) (set_box ?r one_system 0 (Some ?m)) = Inr (Some ?m)"
    by (rule t [THEN conjunct2, THEN conjunct2, THEN conjunct1, THEN mp, OF sh])
  have vec: "map_sum id (\<lambda>h'. box (inner_data h' 0))
      (set_box ?r one_system 0 (Some \<lparr>shape = [3], data = [?x, ?x, ?x]\<rparr>)) = Inr (Some (diag3 ?x ?x ?x))"
    by (rule t [THEN conjunct2, THEN conjunct1, THEN mp, OF len,
          THEN conjunct2, THEN conjunct2, THEN conjunct1])
  have mat: "map_sum id (\<lambda>h'. box (inner_data h' 0))
      (set_box ?r one_system 0 (Some (diag3 ?x ?x ?x))) = Inr (Some (diag3 ?x ?x ?x))"
    by (rule t [THEN conjunct2, THEN conjunct1, THEN mp, OF len,
          THEN conjunct2, THEN conjunct2, THEN conjunct2])
  have "set_box ?r one_system 0 (Some six_numbers) = Inl (?r (Error InvalidBoxError NoDetail))"
    by (rule t [THEN conjunct2, THEN conjunct2, THEN conjunct2, THEN conjunct2, THEN mp, OF ne,
          THEN conjunct2])
  then have bad: "set_box ?r one_system 0 (Some six_numbers) = Inl (Error ValidationError NoDetail)"
    by simp
  show ?thesis
    using val ne before vec mat bad sh asis by simp
qed

text \<open>
  C7 as stated fails for a 3-vector with a negative component: from \<open>[-1, 2, 3]\<close> the
  first column of the stored matrix has \<open>-0.0\<close> below the diagonal, where
  \<open>diag(-1, 2, 3)\<close> has \<open>0.0\<close>, so the two stored boxes differ.
\<close>

theorem box_setter_counterexample:
  "map_sum id (\<lambda>h'. box (inner_data h' 0))
       (set_box (\<lambda>e. e) one_system 0
          (Some \<lparr>shape = [3], data = [Finite True 1, Finite False 2, Finite False 3]\<rparr>))
     = Inr (Some \<lparr>shape = [3, 3],
                  data = [Finite True 1, Finite False 0, Finite False 0,
                          Finite True 0, Finite False 2, Finite False 0,
                          Finite True 0, Finite False 0, Finite False 3]\<rparr>) \<and>
   map_sum id (\<lambda>h'. box (inner_data h' 0))
       (set_box (\<lambda>e. e) one_system 0 (Some (diag3 (Finite True 1) (Finite False 2) (Finite False 3))))
     = Inr (Some \<lparr>shape = [3, 3],
                  data = [Finite True 1, Finite False 0, Finite False 0,
                          Finite False 0, Finite False 2, Finite False 0,
                          Finite False 0, Finite False 0, Finite False 3]\<rparr>) \<and>
   validate_box (Some \<lparr>shape = [3], data = [Finite True 1, Finite False 2, Finite False 3]\<rparr>)
     \<noteq> validate_box (Some (diag3 (Finite True 1) (Finite False 2) (Finite False 3)))"
  by (simp add: set_box_def validate_box_def times_eye3_def eye3_rows_def diag3_def
      inner_data_def update_inner_def one_system_def System_init_def)

section \<open>Charges of the electrostatics collection\<close>

text \<open>
  C5, as the code has it. Reading \<^verbatim>\<open>charges\<close> of an \<^verbatim>\<open>ElectrostaticsCollection\<close> raises
  \<^verbatim>\<open>NotImplementedError\<close> whatever is registered in the collection, and so does
  \<^verbatim>\<open>_get_charges\<close>: the class leaves both to its subclasses.
\<close>

theorem charges_not_implemented:
  "ElectrostaticsCollection_charges self = Inl (Error NotImplementedError NoDetail) \<and>
   ElectrostaticsCollection_get_charges self = Inl (Error NotImplementedError NoDetail)"
  by (simp add: ElectrostaticsCollection_charges_def ElectrostaticsCollection_get_charges_def)

text \<open>
  C5 as stated fails: with a partial charge registered for atom 0, reading \<^verbatim>\<open>charges\<close>
  does not return the summed charges but raises.
\<close>

theorem charges_registered_counterexample:
  "key_map charged_collection \<noteq> [] \<and>
   collection_potentials charged_collection \<noteq> [] \<and>
   ElectrostaticsCollection_charges charged_collection = Inl (Error NotImplementedError NoDetail)"
  by (simp add: charged_collection_def ElectrostaticsCollection_charges_def)

section \<open>Lookup by name\<close>

text \<open>
  C6, as the code has it. A key that is not a string raises \<^verbatim>\<open>LookupError\<close>, the same
  exception class as a missing handler but with another message; a string that is none of
  \<^verbatim>\<open>"positions"\<close>, \<^verbatim>\<open>"box"\<close>, \<^verbatim>\<open>"box_vectors"\<close> and not a registered name raises
  \<^verbatim>\<open>LookupError\<close> with the registered names in its message; a registered name other than
  these three returns its handler.
\<close>

theorem getitem_lookup:
  "getitem h s (PyInt n) = Inl (Error LookupError (OnlyStr (PyInt n))) \<and>
   getitem h s PyNone = Inl (Error LookupError (OnlyStr PyNone)) \<and>
   Error LookupError (OnlyStr it) \<noteq> Error LookupError (CouldNotFind item names) \<and>
   (item \<notin> {''positions'', ''box'', ''box_vectors''} \<and>
    map_of (handlers (inner_data h s)) item = None \<longrightarrow>
      getitem h s (PyStr item)
        = Inl (Error LookupError (CouldNotFind item (map fst (handlers (inner_data h s)))))) \<and>
   (item \<notin> {''positions'', ''box'', ''box_vectors''} \<and>
    map_of (handlers (inner_data h s)) item = Some hdl \<longrightarrow>
      getitem h s (PyStr item) = Inr (Handler hdl))"
  by (simp add: getitem_def getitem_inner_def)

theorem getitem_lookup_witness:
  "''CMAPs'' \<notin> {''positions'', ''box'', ''box_vectors''} \<and>
   map_of (handlers (inner_data lookup_heap 0)) ''CMAPs'' = None \<and>
   getitem lookup_heap 0 (PyStr ''CMAPs'')
     = Inl (Error LookupError (CouldNotFind ''CMAPs'' [''Bonds'', ''box''])) \<and>
   ''Bonds'' \<notin> {''positions'', ''box'', ''box_vectors''} \<and>
   map_of (handlers (inner_data lookup_heap 0)) ''Bonds'' = Some empty_handler \<and>
   getitem lookup_heap 0 (PyStr ''Bonds'') = Inr (Handler empty_handler)"
proof -
  have hs: "handlers (inner_data lookup_heap 0) = [(''Bonds'', empty_handler), (''box'', empty_handler)]"
    by (simp add: lookup_heap_def add_handler_def update_inner_def inner_data_def InnerSystem_init_def)
  have a: "''CMAPs'' \<notin> {''positions'', ''box'', ''box_vectors''} \<and>
      map_of (handlers (inner_data lookup_heap 0)) ''CMAPs'' = None"
    by (simp add: hs)
  have b: "''Bonds'' \<notin> {''positions'', ''box'', ''box_vectors''} \<and>
      map_of (handlers (inner_data lookup_heap 0)) ''Bonds'' = Some empty_handler"
    by (simp add: hs)
  have c0: "getitem lookup_heap 0 (PyStr ''CMAPs'')
      = Inl (Error LookupError (CouldNotFind ''CMAPs'' (map fst (handlers (inner_data lookup_heap 0)))))"
    by (rule getitem_lookup [of lookup_heap 0 0 PyNone "''CMAPs''" "[]" empty_handler,
          THEN conjunct2, THEN conjunct2, THEN conjunct2, THEN conjunct1, THEN mp, OF a])
  have c: "getitem lookup_heap 0 (PyStr ''CMAPs'')
      = Inl (Error LookupError (CouldNotFind ''CMAPs'' [''Bonds'', ''box'']))"
    unfolding c0 hs by simp
  have d: "getitem lookup_heap 0 (PyStr ''Bonds'') = Inr (Handler empty_handler)"
    by (rule getitem_lookup [of lookup_heap 0 0 PyNone "''Bonds''" "[]" empty_handler,
          THEN conjunct2, THEN conjunct2, THEN conjunct2, THEN conjunct2, THEN mp, OF b])
  show ?thesis using a b c d by (intro conjI) (elim conjE, assumption)+
qed

text \<open>
  C6 as stated fails in two places. The error for the key \<open>1\<close> and the error for the
  unregistered name \<^verbatim>\<open>"CMAPs"\<close> are of one class, \<^verbatim>\<open>LookupError\<close>. And a handler
  registered under the name \<^verbatim>\<open>"box"\<close> is not what indexing with \<^verbatim>\<open>"box"\<close> returns: that
  is the box.
\<close>

theorem getitem_counterexample:
  "map_sum exc_class id (getitem lookup_heap 0 (PyInt 1)) = Inl LookupError \<and>
   map_sum exc_class id (getitem lookup_heap 0 (PyStr ''CMAPs'')) = Inl LookupError \<and>
   map_of (handlers (inner_data lookup_heap 0)) ''box'' = Some empty_handler \<and>
   getitem lookup_heap 0 (PyStr ''box'') = Inr (ArrayReal None) \<and>
   getitem lookup_heap 0 (PyStr ''box'') \<noteq> Inr (Handler empty_handler)"
  by (simp add: getitem_def getitem_inner_def lookup_heap_def add_handler_def update_inner_def
      inner_data_def InnerSystem_init_def)

section \<open>The nonbonded method of the OpenMM export\<close>

lemma set_particles_method:
  "set_particles pp vs f = Inr f' \<Longrightarrow> nonbonded_method f' = nonbonded_method f"
  by (induction vs arbitrary: f)
     (auto simp: setParticleParameters_def split: sum.splits if_splits prod.splits)

text \<open>
  C4, what the code does. Whenever \<^verbatim>\<open>_process_nonbonded_forces\<close> returns, it has not
  set the nonbonded method of the force: validation lets only the vdW method
  \<^verbatim>\<open>"Cutoff"\<close> through, and the method is configured only under the test
  \<^verbatim>\<open>vdw_handler.method == "cutoff"\<close>, which is then false.
\<close>

theorem nonbonded_method_left_default:
  "process_nonbonded_forces pp openff_sys = Inr f \<Longrightarrow> nonbonded_method f = None"
  by (auto simp: process_nonbonded_forces_def supported_cutoff_methods_def NonbondedForce_init_def
      Let_def dest!: set_particles_method split: option.splits if_splits)

theorem nonbonded_method_left_default_witness:
  "process_nonbonded_forces (\<lambda>v. Inl (Error KeyError NoDetail)) periodic_system = Inr NonbondedForce_init \<and>
   box periodic_system \<noteq> None \<and>
   nonbonded_method NonbondedForce_init = None"
proof -
  have r: "process_nonbonded_forces (\<lambda>v. Inl (Error KeyError NoDetail)) periodic_system
      = Inr NonbondedForce_init"
    by (simp add: process_nonbonded_forces_def periodic_system_def empty_handler_def
        supported_cutoff_methods_def)
  from nonbonded_method_left_default [OF r] r show ?thesis
    by (simp add: periodic_system_def)
qed

section \<open>Virtual sites\<close>

text \<open>
  C8. A bond-charge virtual site on two orientation atoms at a separation that is not zero
  becomes a two-particle average site on their particles with the weights
  \<open>w1 = 1 + distance / separation\<close> and \<open>w2 = - (distance / separation)\<close>, and
  \<open>w1 + w2 = 1\<close>.
\<close>

theorem bond_charge_weights:
  assumes "site_class v = BondChargeVirtualSite"
    and "orientations v = [a1, a2]"
    and "map_of pm a1 = Some p1" and "map_of pm a2 = Some p2"
    and "get_separation [a1, a2] = Inr separation"
    and "separation \<noteq> 0"
  shows "\<exists>w1 w2. create_openmm_virtual_site get_separation v pm = Inr (TwoParticleAverageSite p1 p2 w1 w2)
           \<and> w1 = 1 + distance v / separation \<and> w2 = - (distance v / separation) \<and> w1 + w2 = 1"
  using assms by (simp add: create_openmm_virtual_site_def Let_def)

theorem bond_charge_weights_witness:
  "create_openmm_virtual_site (\<lambda>atoms. Inr (1 / 5)) bond_charge_site three_particles
     = Inr (TwoParticleAverageSite 0 1 (3 / 2) (- 1 / 2))"
proof -
  have "\<exists>w1 w2. create_openmm_virtual_site (\<lambda>atoms. Inr (1 / 5)) bond_charge_site three_particles
           = Inr (TwoParticleAverageSite 0 1 w1 w2)
           \<and> w1 = 1 + distance bond_charge_site / (1 / 5) \<and> w2 = - (distance bond_charge_site / (1 / 5))
           \<and> w1 + w2 = 1"
    by (rule bond_charge_weights [of bond_charge_site 0 1 three_particles 0 1 "\<lambda>atoms. Inr (1 / 5)" "1 / 5"])
       (simp_all add: bond_charge_site_def three_particles_def)
  then show ?thesis
    by (auto simp: bond_charge_site_def)
qed

text \<open>
  C9. A divalent lone-pair site on three orientation atoms becomes the symmetric
  three-particle average site with the weights \<open>w1\<close>, \<open>(1 - w1) / 2\<close>, \<open>(1 - w1) / 2\<close> if the
  separations of the first atom from the second and from the third are equal and the
  out-of-plane angle is zero, and in every other case the local-coordinates site of the
  site's local frame weights and positions. The separation of the second and the third
  atom is asked for in the first case only.
\<close>

theorem divalent_lone_pair_site:
  assumes "site_class v = DivalentLonePairVirtualSite"
    and "orientations v = [a1, a2, a3]"
    and "map_of pm a1 = Some p1" and "map_of pm a2 = Some p2" and "map_of pm a3 = Some p3"
    and "get_separation [a1, a2] = Inr r12"
    and "get_separation [a1, a3] = Inr r13"
    and "r12 = r13 \<and> out_of_plane_angle v = 0 \<longrightarrow> get_separation [a2, a3] = Inr r23"
    and "w1 = divalent_w1 (distance v) r12 r13 r23"
  shows "create_openmm_virtual_site get_separation v pm =
           (if r12 = r13 \<and> out_of_plane_angle v = 0
            then Inr (ThreeParticleAverageSite p1 p2 p3 w1 ((1 - w1) / 2) ((1 - w1) / 2))
            else Inr (LocalCoordinatesSite [p1, p2, p3]
                        (fst (local_frame_weights v)) (fst (snd (local_frame_weights v)))
                        (snd (snd (local_frame_weights v))) (local_frame_positions v)))"
proof (cases "r12 = r13 \<and> out_of_plane_angle v = 0")
  case True
  with assms have "get_separation [a2, a3] = Inr r23"
    by blast
  with True assms(1-7,9) show ?thesis
    by (simp add: create_openmm_virtual_site_def Let_def)
next
  case False
  with assms(1-7) show ?thesis
    by (auto simp: create_openmm_virtual_site_def local_coordinates_site_def case_prod_beta)
qed

theorem divalent_lone_pair_site_witness:
  "create_openmm_virtual_site (\<lambda>atoms. Inr (1 / 10)) planar_lone_pair three_particles
     = Inr (ThreeParticleAverageSite 0 1 2
              (divalent_w1 (1 / 10) (1 / 10) (1 / 10) (1 / 10))
              ((1 - divalent_w1 (1 / 10) (1 / 10) (1 / 10) (1 / 10)) / 2)
              ((1 - divalent_w1 (1 / 10) (1 / 10) (1 / 10) (1 / 10)) / 2)) \<and>
   create_openmm_virtual_site (\<lambda>atoms. Inr (1 / 10)) tilted_lone_pair three_particles
     = Inr (LocalCoordinatesSite [0, 1, 2] [1, 0, 0] [- 1, 1 / 2, 1 / 2] [- 1, 1, 0] [- 1 / 10, 0, 0])"
proof -
  let ?sep = "\<lambda>atoms :: nat list. Inr (1 / 10) :: error + real"
  let ?w = "divalent_w1 (1 / 10) (1 / 10) (1 / 10) (1 / 10)"
  have a: "create_openmm_virtual_site ?sep planar_lone_pair three_particles =
      (if (1 / 10 :: real) = 1 / 10 \<and> out_of_plane_angle planar_lone_pair = 0
       then Inr (ThreeParticleAverageSite 0 1 2 ?w ((1 - ?w) / 2) ((1 - ?w) / 2))
       else Inr (LocalCoordinatesSite [0, 1, 2]
                   (fst (local_frame_weights planar_lone_pair))
                   (fst (snd (local_frame_weights planar_lone_pair)))
                   (snd (snd (local_frame_weights planar_lone_pair)))
                   (local_frame_positions planar_lone_pair)))"
    by (rule divalent_lone_pair_site [of planar_lone_pair 0 1 2 three_particles 0 1 2 ?sep])
       (simp_all add: planar_lone_pair_def three_particles_def)
  have b: "create_openmm_virtual_site ?sep tilted_lone_pair three_particles =
      (if (1 / 10 :: real) = 1 / 10 \<and> out_of_plane_angle tilted_lone_pair = 0
       then Inr (ThreeParticleAverageSite 0 1 2 ?w ((1 - ?w) / 2) ((1 - ?w) / 2))
       else Inr (LocalCoordinatesSite [0, 1, 2]
                   (fst (local_frame_weights tilted_lone_pair))
                   (fst (snd (local_frame_weights tilted_lone_pair)))
                   (snd (snd (local_frame_weights tilted_lone_pair)))
                   (local_frame_positions tilted_lone_pair)))"
    by (rule divalent_lone_pair_site [of tilted_lone_pair 0 1 2 three_particles 0 1 2 ?sep])
       (simp_all add: tilted_lone_pair_def planar_lone_pair_def three_particles_def)
  show ?thesis
    using a b by (simp add: tilted_lone_pair_def planar_lone_pair_def)
qed

section \<open>Combination\<close>

subsection \<open>Dictionaries\<close>

lemma update_new_key:
  "k \<notin> fst ` set al \<Longrightarrow> AList.update k v al = al @ [(k, v)]"
  by (induction al) auto

lemma fold_update_new_keys:
  "distinct (map fst xs) \<Longrightarrow> fst ` set xs \<inter> fst ` set al = {} \<Longrightarrow>
   fold (\<lambda>e. AList.update (fst e) (snd e)) xs al = al @ xs"
proof (induction xs arbitrary: al)
  case Nil
  then show ?case by simp
next
  case (Cons x xs)
  have new: "fst x \<notin> fst ` set al"
    using Cons.prems(2) by auto
  have "fold (\<lambda>e. AList.update (fst e) (snd e)) (x # xs) al
      = fold (\<lambda>e. AList.update (fst e) (snd e)) xs (al @ [x])"
    by (simp add: update_new_key [OF new])
  also have "\<dots> = (al @ [x]) @ xs"
  proof (rule Cons.IH)
    show "distinct (map fst xs)"
      using Cons.prems(1) by simp
    show "fst ` set xs \<inter> fst ` set (al @ [x]) = {}"
      using Cons.prems by auto
  qed
  finally show ?case by simp
qed

subsection \<open>Sorting\<close>

lemma insort_key_append:
  "\<forall>y\<in>set ys. f x \<le> f y \<Longrightarrow> insort_key f x (xs @ ys) = insort_key f x xs @ ys"
  by (induction xs) (auto simp: insort_is_Cons)

lemma sort_key_append:
  "\<forall>x\<in>set xs. \<forall>y\<in>set ys. f x \<le> f y \<Longrightarrow>
   sort_key f (xs @ ys) = sort_key f xs @ sort_key f ys"
  by (induction xs) (simp_all add: insort_key_append)

lemma insort_key_map:
  "\<forall>y\<in>set ys. (f (g x) \<le> f (g y)) = (f x \<le> f y) \<Longrightarrow>
   insort_key f (g x) (map g ys) = map g (insort_key f x ys)"
  by (induction ys) auto

lemma sort_key_map:
  "\<forall>x\<in>set xs. \<forall>y\<in>set xs. (f (g x) \<le> f (g y)) = (f x \<le> f y) \<Longrightarrow>
   sort_key f (map g xs) = map g (sort_key f xs)"
proof (induction xs)
  case Nil
  then show ?case by simp
next
  case (Cons x xs)
  have "sort_key f (map g xs) = map g (sort_key f xs)"
    using Cons by simp
  moreover have "insort_key f (g x) (map g (sort_key f xs)) = map g (insort_key f x (sort_key f xs))"
    by (rule insort_key_map) (use Cons.prems in simp)
  ultimately show ?case by simp
qed

subsection \<open>Parameter rows\<close>

lemma parameter_rows_cong:
  "\<forall>slot\<in>set slots. map_of pots (snd slot) = map_of pots' (snd slot) \<Longrightarrow>
   parameter_rows pots slots = parameter_rows pots' slots"
  by (induction slots) (auto split: option.splits sum.splits)

lemma parameter_rows_append:
  "parameter_rows pots xs = Inr rx \<Longrightarrow> parameter_rows pots ys = Inr ry \<Longrightarrow>
   parameter_rows pots (xs @ ys) = Inr (rx @ ry)"
  by (induction xs arbitrary: rx) (auto split: option.splits sum.splits)

lemma parameter_rows_map_key:
  "parameter_rows pots (map (\<lambda>slot. (g (fst slot), snd slot)) slots) = parameter_rows pots slots"
  by (induction slots) (auto split: option.splits sum.splits)


subsection \<open>The loops of the combination\<close>

lemma shift_key_inj: "shift_key n k = shift_key n k' \<Longrightarrow> k = k'"
  by (cases k, cases k') (simp add: shift_key_def)

lemma merge_slots_Inr:
  "merge_slots n oh slots sh = Inr sh' \<Longrightarrow>
   slot_map sh' =
     fold (\<lambda>e. AList.update (fst e) (snd e)) (map (\<lambda>slot. (shift_key n (fst slot), snd slot)) slots)
       (slot_map sh) \<and>
   (\<forall>p. map_of (potentials sh') p =
      (if p \<in> snd ` set slots then map_of (potentials oh) p else map_of (potentials sh) p))"
proof (induction slots arbitrary: sh)
  case Nil
  then show ?case by simp
next
  case (Cons slot slots)
  obtain top_key pot_key where slot: "slot = (top_key, pot_key)"
    by (cases slot)
  from Cons.prems slot obtain pot where
    pot: "map_of (potentials oh) pot_key = Some pot" and
    rest: "merge_slots n oh slots
             (sh\<lparr>slot_map := AList.update (shift_key n top_key) pot_key (slot_map sh),
                 potentials := AList.update pot_key pot (potentials sh)\<rparr>) = Inr sh'"
    by (auto split: option.splits)
  from Cons.IH [OF rest] pot slot show ?case
    by (auto simp: update_conv')
qed

lemma merge_handlers_other:
  "merge_handlers n ohs shs = Inr hs' \<Longrightarrow> handler_name \<notin> fst ` set ohs \<Longrightarrow>
   map_of hs' handler_name = map_of shs handler_name"
proof (induction ohs arbitrary: shs)
  case Nil
  then show ?case by simp
next
  case (Cons oh ohs)
  obtain nm hdl where oh: "oh = (nm, hdl)"
    by (cases oh)
  have ne: "nm \<noteq> handler_name" and notin: "handler_name \<notin> fst ` set ohs"
    using Cons.prems(2) oh by auto
  from Cons.prems(1) oh consider
      (skip) "merge_handlers n ohs shs = Inr hs'"
    | (merge) sh' where "merge_handlers n ohs (AList.update nm sh' shs) = Inr hs'"
    by (auto split: option.splits if_splits sum.splits)
  then show ?case
  proof cases
    case skip
    then show ?thesis using Cons.IH notin by blast
  next
    case merge
    from Cons.IH [OF merge notin] ne show ?thesis
      by (simp add: update_conv')
  qed
qed

lemma merge_handlers_named:
  "merge_handlers n ohs shs = Inr hs' \<Longrightarrow> distinct (map fst ohs) \<Longrightarrow>
   map_of ohs handler_name = Some oh \<Longrightarrow> handler_name \<noteq> ''Electrostatics'' \<Longrightarrow>
   map_of shs handler_name = Some sh \<Longrightarrow>
   \<exists>sh'. merge_slots n oh (slot_map oh) sh = Inr sh' \<and> map_of hs' handler_name = Some sh'"
proof (induction ohs arbitrary: shs)
  case Nil
  then show ?case by simp
next
  case (Cons x ohs)
  obtain nm hdl where x: "x = (nm, hdl)"
    by (cases x)
  show ?case
  proof (cases "nm = handler_name")
    case True
    then have hdl: "hdl = oh"
      using Cons.prems(3) x by simp
    from Cons.prems(1,4,5) x True hdl obtain sh' where
      ms: "merge_slots n oh (slot_map oh) sh = Inr sh'" and
      rest: "merge_handlers n ohs (AList.update handler_name sh' shs) = Inr hs'"
      by (auto split: sum.splits)
    have "handler_name \<notin> fst ` set ohs"
      using Cons.prems(2) x True by auto
    from merge_handlers_other [OF rest this] have "map_of hs' handler_name = Some sh'"
      by (simp add: update_conv')
    with ms show ?thesis by blast
  next
    case False
    have lk: "map_of ohs handler_name = Some oh"
      using Cons.prems(3) x False by simp
    have d: "distinct (map fst ohs)"
      using Cons.prems(2) by simp
    from Cons.prems(1) x consider
        (skip) "merge_handlers n ohs shs = Inr hs'"
      | (merge) sh' where "merge_handlers n ohs (AList.update nm sh' shs) = Inr hs'"
      by (auto split: option.splits if_splits sum.splits)
    then show ?thesis
    proof cases
      case skip
      from Cons.IH [OF skip d lk Cons.prems(4) Cons.prems(5)] show ?thesis .
    next
      case merge
      have "map_of (AList.update nm sh' shs) handler_name = Some sh"
        using False Cons.prems(5) by (simp add: update_conv')
      from Cons.IH [OF merge d lk Cons.prems(4) this] show ?thesis .
    qed
  qed
qed

lemma merge_charges_other:
  "merge_charges n chs hs = Inr hs' \<Longrightarrow> handler_name \<noteq> ''Electrostatics'' \<Longrightarrow>
   map_of hs' handler_name = map_of hs handler_name"
proof (induction chs arbitrary: hs)
  case Nil
  then show ?case by simp
next
  case (Cons c chs)
  obtain atom_key charge where c: "c = (atom_key, charge)"
    by (cases c)
  from Cons.prems(1) c obtain es k where
    "merge_charges n chs (AList.update ''Electrostatics'' es hs) = Inr hs'"
    by (auto split: list.splits option.splits)
  from Cons.IH [OF this Cons.prems(2)] Cons.prems(2) show ?case
    by (simp add: update_conv')
qed


subsection \<open>The store after a combination\<close>

lemma add_Inr:
  assumes "valid h a" and "valid h b" and "systems h ! a \<noteq> systems h ! b"
    and "add h a b = Inr (h', c)"
  shows "c = length (systems h) \<and>
         add_inner (inner_data h a) (inner_data h b) = Inr (inner_data h' c) \<and>
         systems h' ! c = systems h' ! a \<and>
         inner_data h' a = inner_data h' c \<and>
         inner_data h' b = inner_data h b"
  using assms
  by (auto simp: add_def System_init_def valid_def inner_data_def nth_append Let_def
      split: sum.splits)

lemma per_particleD:
  "per_particle n hdl \<Longrightarrow> slot \<in> set (slot_map hdl) \<Longrightarrow> \<exists>i<n. atom_indices (fst slot) = [i]"
proof -
  assume "per_particle n hdl" and "slot \<in> set (slot_map hdl)"
  then have "case atom_indices (fst slot) of [] \<Rightarrow> False | [i] \<Rightarrow> i < n | _ \<Rightarrow> False"
    by (simp add: per_particle_def list_all_iff)
  then show ?thesis
    by (cases "atom_indices (fst slot)"; cases "tl (atom_indices (fst slot))") auto
qed

lemma potentials_agreeD:
  "potentials_agree sh oh \<Longrightarrow> slot \<in> set (slot_map oh) \<Longrightarrow>
   map_of (potentials sh) (snd slot) = Some pot \<Longrightarrow> map_of (potentials oh) (snd slot) = Some pot"
  by (auto simp: potentials_agree_def list_all_iff split: option.splits)

lemma parameter_rows_resolved:
  "parameter_rows pots slots = Inr rows \<Longrightarrow> slot \<in> set slots \<Longrightarrow>
   map_of pots (snd slot) \<noteq> None"
  by (induction slots arbitrary: rows) (auto split: option.splits sum.splits)

text \<open>The table of a handler into which the slots of another have been merged.\<close>

lemma merge_slots_table:
  assumes ms: "merge_slots n oh (slot_map oh) sh = Inr sh'"
    and dist: "distinct (map fst (slot_map oh))"
    and pa: "per_particle n sh" and pb: "per_particle m oh"
    and agree: "potentials_agree sh oh"
    and ra: "get_system_parameters sh = Inr rows_a"
    and rb: "get_system_parameters oh = Inr rows_b"
  shows "slot_map sh' = slot_map sh @ map (\<lambda>slot. (shift_key n (fst slot), snd slot)) (slot_map oh) \<and>
         get_system_parameters sh' = Inr (rows_a @ rows_b)"
proof -
  let ?g = "\<lambda>slot :: topology_key \<times> potential_key. (shift_key n (fst slot), snd slot)"
  let ?f = "\<lambda>slot :: topology_key \<times> potential_key. atom_indices (fst slot)"
  note char = merge_slots_Inr [OF ms]
  have inj: "inj_on ?g (set (slot_map oh))"
    by (auto simp: inj_on_def dest: shift_key_inj)
  have d: "distinct (map fst (map ?g (slot_map oh)))"
  proof -
    have eq: "map fst (map ?g (slot_map oh)) = map (shift_key n) (map fst (slot_map oh))"
      by (simp add: comp_def)
    have "inj_on (shift_key n) (set (map fst (slot_map oh)))"
      by (rule inj_onI) (rule shift_key_inj)
    with dist have "distinct (map (shift_key n) (map fst (slot_map oh)))"
      by (simp only: distinct_map)
    then show ?thesis
      by (simp only: eq)
  qed
  have disj: "fst ` set (map ?g (slot_map oh)) \<inter> fst ` set (slot_map sh) = {}"
  proof -
    have "k \<notin> fst ` set (slot_map sh)" if k: "k \<in> fst ` set (map ?g (slot_map oh))" for k
    proof
      assume "k \<in> fst ` set (slot_map sh)"
      then obtain y where y: "y \<in> set (slot_map sh)" and ky: "fst y = k"
        by auto
      from k obtain x where x: "x \<in> set (slot_map oh)" and kx: "k = shift_key n (fst x)"
        by auto
      from per_particleD [OF pa y] obtain i where i: "i < n" "atom_indices (fst y) = [i]"
        by blast
      from per_particleD [OF pb x] obtain j where j: "atom_indices (fst x) = [j]"
        by blast
      from ky kx have "atom_indices (shift_key n (fst x)) = atom_indices (fst y)"
        by simp
      with i j show False
        by (simp add: shift_key_def)
    qed
    then show ?thesis by blast
  qed
  have slots: "slot_map sh' = slot_map sh @ map ?g (slot_map oh)"
    using char fold_update_new_keys [OF d disj] by simp
  have pots: "map_of (potentials sh') p =
      (if p \<in> snd ` set (slot_map oh) then map_of (potentials oh) p else map_of (potentials sh) p)" for p
    using char by simp
  have low: "\<forall>x\<in>set (slot_map sh). \<forall>y\<in>set (map ?g (slot_map oh)). ?f x \<le> ?f y"
  proof (intro ballI)
    fix x y
    assume x: "x \<in> set (slot_map sh)" and y: "y \<in> set (map ?g (slot_map oh))"
    from y obtain z where z: "z \<in> set (slot_map oh)" and yz: "y = ?g z"
      by auto
    from per_particleD [OF pa x] obtain i where i: "i < n" "atom_indices (fst x) = [i]"
      by blast
    from per_particleD [OF pb z] obtain j where j: "atom_indices (fst z) = [j]"
      by blast
    from i j yz show "?f x \<le> ?f y"
      by (simp add: shift_key_def)
  qed
  have mono: "\<forall>x\<in>set (slot_map oh). \<forall>y\<in>set (slot_map oh). (?f (?g x) \<le> ?f (?g y)) = (?f x \<le> ?f y)"
  proof (intro ballI)
    fix x y
    assume x: "x \<in> set (slot_map oh)" and y: "y \<in> set (slot_map oh)"
    from per_particleD [OF pb x] obtain i where i: "atom_indices (fst x) = [i]"
      by blast
    from per_particleD [OF pb y] obtain j where j: "atom_indices (fst y) = [j]"
      by blast
    from i j show "(?f (?g x) \<le> ?f (?g y)) = (?f x \<le> ?f y)"
      by (auto simp: shift_key_def)
  qed
  have sorted_all: "sort_key ?f (slot_map sh') = sort_key ?f (slot_map sh) @ map ?g (sort_key ?f (slot_map oh))"
    unfolding slots using sort_key_append [of "slot_map sh" "map ?g (slot_map oh)" ?f, OF low]
      sort_key_map [of "slot_map oh" ?f ?g, OF mono]
    by simp
  have left: "parameter_rows (potentials sh') (sort_key ?f (slot_map sh)) = Inr rows_a"
  proof -
    have "parameter_rows (potentials sh') (sort_key ?f (slot_map sh))
        = parameter_rows (potentials sh) (sort_key ?f (slot_map sh))"
    proof (rule parameter_rows_cong, rule ballI)
      fix slot
      assume "slot \<in> set (sort_key ?f (slot_map sh))"
      then have res: "map_of (potentials sh) (snd slot) \<noteq> None"
        using parameter_rows_resolved [of "potentials sh" "sort_key ?f (slot_map sh)" rows_a slot] ra
        by (simp add: get_system_parameters_def)
      show "map_of (potentials sh') (snd slot) = map_of (potentials sh) (snd slot)"
      proof (cases "snd slot \<in> snd ` set (slot_map oh)")
        case True
        then obtain z where z: "z \<in> set (slot_map oh)" and sz: "snd z = snd slot"
          by auto
        from res obtain pot where pot: "map_of (potentials sh) (snd slot) = Some pot"
          by auto
        from potentials_agreeD [OF agree z] pot sz
        have "map_of (potentials oh) (snd slot) = Some pot"
          by simp
        with pot True show ?thesis
          by (simp add: pots)
      next
        case False
        then show ?thesis
          by (simp add: pots)
      qed
    qed
    with ra show ?thesis
      by (simp add: get_system_parameters_def)
  qed
  have right: "parameter_rows (potentials sh') (map ?g (sort_key ?f (slot_map oh))) = Inr rows_b"
  proof -
    have "parameter_rows (potentials sh') (map ?g (sort_key ?f (slot_map oh)))
        = parameter_rows (potentials sh') (sort_key ?f (slot_map oh))"
      by (rule parameter_rows_map_key)
    also have "\<dots> = parameter_rows (potentials oh) (sort_key ?f (slot_map oh))"
      by (rule parameter_rows_cong) (auto simp: pots)
    finally show ?thesis
      using rb by (simp add: get_system_parameters_def)
  qed
  have "get_system_parameters sh' = Inr (rows_a @ rows_b)"
    unfolding get_system_parameters_def sorted_all
    by (rule parameter_rows_append [OF left right])
  with slots show ?thesis by simp
qed

lemma add_inner_boxes:
  "add_inner self_d other_d = Inr d \<Longrightarrow> np_all_eq (box self_d) (box other_d) \<and> box d = box self_d"
  by (auto simp: add_inner_def split: option.splits sum.splits component.splits if_splits)

lemma add_inner_Inr:
  "add_inner self_d other_d = Inr d \<Longrightarrow> topology self_d = Some ta \<Longrightarrow> mdtop ta = Some n \<Longrightarrow>
   \<exists>hs chs. merge_handlers n (handlers other_d) (handlers self_d) = Inr hs \<and>
            merge_charges n chs hs = Inr (handlers d)"
  by (auto simp: add_inner_def split: option.splits sum.splits component.splits if_splits)

lemmas add_defs =
  add_def System_init_def inner_data_def add_inner_def getitem_inner_def update_inner_def
  add_molecules_def shift_key_def vstack_def atleast_2d_def asanyarray_def np_all_eq_def

lemmas table_defs =
  get_system_parameters_def potential_parameters_def

lemma vstack_positioned:
  "vstack [Some \<lparr>shape = [n, k], data = xs\<rparr>, Some \<lparr>shape = [m, k], data = ys\<rparr>]
     = Inr \<lparr>shape = [n + m, k], data = xs @ ys\<rparr>"
  by (simp add: vstack_def atleast_2d_def asanyarray_def)

text \<open>
  Whatever the operands are, a combination that returns gives a container whose positions
  are an array.
\<close>

lemma add_inner_positions:
  "add_inner self_d other_d = Inr d \<Longrightarrow> positions d \<noteq> None"
  by (auto simp: add_inner_def split: option.splits sum.splits component.splits if_splits)

lemma add_inner_same_positions:
  "add_inner_same self_d = Inr d \<Longrightarrow> positions d \<noteq> None"
  by (auto simp: add_inner_same_def split: option.splits sum.splits component.splits if_splits)

lemma add_positions_not_None:
  assumes "valid h a" and "add h a b = Inr (h', c)"
  shows "positions (inner_data h' c) \<noteq> None"
  using assms
  by (auto simp: add_def System_init_def valid_def inner_data_def nth_append Let_def
      dest: add_inner_positions add_inner_same_positions split: sum.splits if_splits)

text \<open>
  C1, what the code does where the claim has the result without positions. Two
  containers without positions combine into a container whose positions are not \<^verbatim>\<open>None\<close>
  but the 2 by 1 object array that \<^verbatim>\<open>vstack\<close> makes of \<^verbatim>\<open>[None, None]\<close>; and when only the
  left operand has positions (two atoms, that is shape \<open>(2, 3)\<close>), the combination raises
  \<^verbatim>\<open>ValueError\<close>. (Two arrays of coordinates are stacked, as \<open>vstack_positioned\<close> has it.)
\<close>

theorem add_unpositioned_positions:
  "(case add two_systems 0 1 of
      Inl e \<Rightarrow> False
    | Inr (h', c) \<Rightarrow>
        positions (inner_data h' c) = Some \<lparr>shape = [2, 1], data = [NoneObj, NoneObj]\<rparr>) \<and>
   add (set_positions two_systems 0 (Some left_positions)) 0 1 = Inl (Error ValueError NoDetail)"
  by (simp add: two_systems_def left_system_def right_system_def atom_key_def carbon_def oxygen_def
      left_positions_def set_positions_def add_defs)

text \<open>
  C2, what the code does to its left operand. The combination returns a new \<^verbatim>\<open>System\<close>
  object, and the right operand is as before; but the new object refers to the inner data
  of the left operand, which is no longer as before: the left operand has the topology,
  the positions and the vdW slots of the combined container.
\<close>

theorem add_changes_left_operand:
  "(case add two_positioned_systems 0 1 of
      Inl e \<Rightarrow> False
    | Inr (h', c) \<Rightarrow>
        c \<noteq> 0 \<and> c \<noteq> 1 \<and>
        systems h' ! c = systems h' ! 0 \<and>
        inner_data h' 1 = inner_data two_positioned_systems 1 \<and>
        inner_data h' 0 \<noteq> inner_data two_positioned_systems 0 \<and>
        topology (inner_data two_positioned_systems 0)
          = Some \<lparr>topology_molecules = [\<lparr>name = ''CO'', n_atoms = 2\<rparr>], mdtop = Some 2\<rparr> \<and>
        topology (inner_data h' 0)
          = Some \<lparr>topology_molecules = [\<lparr>name = ''CO'', n_atoms = 2\<rparr>, \<lparr>name = ''C'', n_atoms = 1\<rparr>],
                   mdtop = Some 3\<rparr> \<and>
        positions (inner_data two_positioned_systems 0) = Some left_positions \<and>
        positions (inner_data h' 0)
          = Some \<lparr>shape = [3, 3], data = data left_positions @ data right_positions\<rparr> \<and>
        map_option slot_map (map_of (handlers (inner_data two_positioned_systems 0)) ''vdW'')
          = Some [(atom_key 0, ''C''), (atom_key 1, ''O'')] \<and>
        map_option slot_map (map_of (handlers (inner_data h' 0)) ''vdW'')
          = Some [(atom_key 0, ''C''), (atom_key 1, ''O''), (atom_key 2, ''C'')])"
  by (simp add: two_positioned_systems_def two_systems_def left_system_def right_system_def atom_key_def
      carbon_def oxygen_def left_positions_def right_positions_def set_positions_def add_defs)

text \<open>
  C3, as the code has it. Let \<open>a\<close> and \<open>b\<close> be containers with inner data of their own
  whose combination returns the container \<open>c\<close> (so their boxes are equal), let \<open>n\<close> be the
  atom count of \<open>a\<close>, let the vdW handlers of both be per-particle handlers, and let every
  potential key of a vdW slot of \<open>b\<close> that the vdW store of \<open>a\<close> has as well name the
  same potential in both. Then the vdW slots of \<open>c\<close> are those of \<open>a\<close> followed by those
  of \<open>b\<close> with \<open>n\<close> added to the atom index, and the vdW table of \<open>c\<close> is the table that
  \<open>a\<close> had before the combination followed by the table of \<open>b\<close>.
\<close>

theorem add_vdw_table:
  assumes "valid h a" and "valid h b" and "systems h ! a \<noteq> systems h ! b"
    and "add h a b = Inr (h', c)"
    and "topology (inner_data h a) = Some ta" and "mdtop ta = Some n"
    and "topology (inner_data h b) = Some tb" and "mdtop tb = Some m"
    and "distinct (map fst (handlers (inner_data h b)))"
    and "map_of (handlers (inner_data h a)) ''vdW'' = Some va"
    and "map_of (handlers (inner_data h b)) ''vdW'' = Some vb"
    and "distinct (map fst (slot_map vb))"
    and "per_particle n va" and "per_particle m vb"
    and "potentials_agree va vb"
    and "get_system_parameters va = Inr rows_a"
    and "get_system_parameters vb = Inr rows_b"
  shows "np_all_eq (box (inner_data h a)) (box (inner_data h b)) \<and>
         (\<exists>vc. map_of (handlers (inner_data h' c)) ''vdW'' = Some vc \<and>
           slot_map vc = slot_map va @ map (\<lambda>slot. (shift_key n (fst slot), snd slot)) (slot_map vb) \<and>
           get_system_parameters vc = Inr (rows_a @ rows_b))"
proof -
  from add_Inr [OF assms(1-4)]
  have inner: "add_inner (inner_data h a) (inner_data h b) = Inr (inner_data h' c)"
    by simp
  from add_inner_Inr [OF inner assms(5,6)] obtain hs chs where
    mh: "merge_handlers n (handlers (inner_data h b)) (handlers (inner_data h a)) = Inr hs" and
    mc: "merge_charges n chs hs = Inr (handlers (inner_data h' c))"
    by blast
  have ne: "''vdW'' \<noteq> ''Electrostatics''"
    by simp
  from merge_handlers_named [OF mh assms(9) assms(11) ne assms(10)] obtain vc where
    ms: "merge_slots n vb (slot_map vb) va = Inr vc" and hv: "map_of hs ''vdW'' = Some vc"
    by blast
  from merge_charges_other [OF mc ne] hv
  have "map_of (handlers (inner_data h' c)) ''vdW'' = Some vc"
    by simp
  with merge_slots_table [OF ms assms(12) assms(13) assms(14) assms(15) assms(16) assms(17)]
    add_inner_boxes [OF inner]
  show ?thesis by blast
qed

theorem add_vdw_table_witness:
  "(case add two_systems 0 1 of
      Inl e \<Rightarrow> False
    | Inr (h', c) \<Rightarrow>
        map_option get_system_parameters (map_of (handlers (inner_data h' c)) ''vdW'')
          = Some (Inr [[17 / 50, 1 / 10], [3 / 10, 1 / 5], [17 / 50, 1 / 10]]))"
proof -
  obtain h' c where r: "add two_systems 0 1 = Inr (h', c)"
    by (simp add: two_systems_def left_system_def right_system_def atom_key_def carbon_def oxygen_def add_defs)
  let ?va = "\<lparr>slot_map = [(atom_key 0, ''C''), (atom_key 1, ''O'')],
              potentials = [(''C'', carbon), (''O'', oxygen)],
              charges = [], cutoff = 9, handler_method = ''cutoff''\<rparr>"
  let ?vb = "\<lparr>slot_map = [(atom_key 0, ''C'')],
              potentials = [(''C'', carbon)],
              charges = [], cutoff = 9, handler_method = ''cutoff''\<rparr>"
  have "np_all_eq (box (inner_data two_systems 0)) (box (inner_data two_systems 1)) \<and>
        (\<exists>vc. map_of (handlers (inner_data h' c)) ''vdW'' = Some vc \<and>
           slot_map vc = slot_map ?va @ map (\<lambda>slot. (shift_key 2 (fst slot), snd slot)) (slot_map ?vb) \<and>
           get_system_parameters vc = Inr ([[17 / 50, 1 / 10], [3 / 10, 1 / 5]] @ [[17 / 50, 1 / 10]]))"
  proof (rule add_vdw_table [where h = two_systems and a = 0 and b = 1 and m = 1
        and ta = "\<lparr>topology_molecules = [\<lparr>name = ''CO'', n_atoms = 2\<rparr>], mdtop = Some 2\<rparr>"
        and tb = "\<lparr>topology_molecules = [\<lparr>name = ''C'', n_atoms = 1\<rparr>], mdtop = Some 1\<rparr>"])
    show "valid two_systems 0" by (simp add: valid_def two_systems_def)
    show "valid two_systems 1" by (simp add: valid_def two_systems_def)
    show "systems two_systems ! 0 \<noteq> systems two_systems ! 1" by (simp add: two_systems_def)
    show "add two_systems 0 1 = Inr (h', c)" by (rule r)
    show "topology (inner_data two_systems 0)
        = Some \<lparr>topology_molecules = [\<lparr>name = ''CO'', n_atoms = 2\<rparr>], mdtop = Some 2\<rparr>"
      by (simp add: inner_data_def two_systems_def left_system_def right_system_def)
    show "mdtop \<lparr>topology_molecules = [\<lparr>name = ''CO'', n_atoms = 2\<rparr>], mdtop = Some 2\<rparr> = Some 2"
      by simp
    show "topology (inner_data two_systems 1)
        = Some \<lparr>topology_molecules = [\<lparr>name = ''C'', n_atoms = 1\<rparr>], mdtop = Some 1\<rparr>"
      by (simp add: inner_data_def two_systems_def left_system_def right_system_def)
    show "mdtop \<lparr>topology_molecules = [\<lparr>name = ''C'', n_atoms = 1\<rparr>], mdtop = Some 1\<rparr> = Some 1"
      by simp
    show "distinct (map fst (handlers (inner_data two_systems 1)))"
      by (simp add: inner_data_def two_systems_def left_system_def right_system_def)
    show "map_of (handlers (inner_data two_systems 0)) ''vdW'' = Some ?va"
      by (simp add: inner_data_def two_systems_def left_system_def right_system_def)
    show "map_of (handlers (inner_data two_systems 1)) ''vdW'' = Some ?vb"
      by (simp add: inner_data_def two_systems_def left_system_def right_system_def)
    show "distinct (map fst (slot_map ?vb))" by simp
    show "per_particle 2 ?va" by (simp add: per_particle_def atom_key_def)
    show "per_particle 1 ?vb" by (simp add: per_particle_def atom_key_def)
    show "potentials_agree ?va ?vb" by (simp add: potentials_agree_def)
    show "get_system_parameters ?va = Inr [[17 / 50, 1 / 10], [3 / 10, 1 / 5]]"
      by (simp add: table_defs atom_key_def carbon_def oxygen_def)
    show "get_system_parameters ?vb = Inr [[17 / 50, 1 / 10]]"
      by (simp add: table_defs atom_key_def carbon_def)
  qed
  then obtain vc where
    "map_of (handlers (inner_data h' c)) ''vdW'' = Some vc" and
    "get_system_parameters vc = Inr [[17 / 50, 1 / 10], [3 / 10, 1 / 5], [17 / 50, 1 / 10]]"
    by auto
  then have "map_option get_system_parameters (map_of (handlers (inner_data h' c)) ''vdW'')
      = Some (Inr [[17 / 50, 1 / 10], [3 / 10, 1 / 5], [17 / 50, 1 / 10]])"
    by simp
  then show ?thesis
    unfolding r by simp
qed

text \<open>
  C3 as stated fails where a potential key names different parameters in the two
  operands: the boxes are equal, the left table has the rows of carbon and oxygen and the
  right table the row of oxygen under the key of carbon, and every row of the combined
  table is the row of oxygen.
\<close>

theorem add_vdw_table_counterexample:
  "np_all_eq (box (inner_data clashing_systems 0)) (box (inner_data clashing_systems 1)) \<and>
   map_option get_system_parameters (map_of (handlers (inner_data clashing_systems 0)) ''vdW'')
     = Some (Inr [[17 / 50, 1 / 10], [3 / 10, 1 / 5]]) \<and>
   map_option get_system_parameters (map_of (handlers (inner_data clashing_systems 1)) ''vdW'')
     = Some (Inr [[3 / 10, 1 / 5]]) \<and>
   (case add clashing_systems 0 1 of
      Inl e \<Rightarrow> False
    | Inr (h', c) \<Rightarrow>
        map_option get_system_parameters (map_of (handlers (inner_data h' c)) ''vdW'')
          = Some (Inr [[3 / 10, 1 / 5], [3 / 10, 1 / 5], [3 / 10, 1 / 5]]) \<and>
        map_option get_system_parameters (map_of (handlers (inner_data h' c)) ''vdW'')
          \<noteq> Some (Inr ([[17 / 50, 1 / 10], [3 / 10, 1 / 5]] @ [[3 / 10, 1 / 5]])))"
  by (simp add: clashing_systems_def clashing_system_def left_system_def right_system_def atom_key_def
      carbon_def oxygen_def add_defs table_defs)

end
